theory Spec2Isabelle
  imports Complex_Main "HOL-Library.Word"
begin

section \<open>JavaScript values\<close>

text \<open>
  The image pipeline is TypeScript that runs in a browser. Its numbers are IEEE doubles.
  A finite double is modelled as the real number it stands for, and every operation of
  the source that rounds is followed by \<open>double\<close>, which rounds a real to the nearest
  double, ties to the even mantissa. The rounding is the one of the normal range: the
  numbers of the pipeline (pixel counts, their quotients, image dimensions and their
  products) lie far inside it.
\<close>

definition tiesToEven :: "real \<Rightarrow> int" where
  "tiesToEven q =
     (let f = \<lfloor>q\<rfloor>; r = q - of_int f
      in if r < 1 / 2 then f else if 1 / 2 < r then f + 1 else if even f then f else f + 1)"

definition double :: "real \<Rightarrow> real" where
  "double x =
     (if x = 0 then 0
      else (let u = 2 powi (\<lfloor>log 2 \<bar>x\<bar>\<rfloor> - 52)
            in of_int (tiesToEven (x / u)) * u))"

text \<open>
  The special values a division can produce are kept: \<open>x / 0\<close> is an infinity and
  \<open>0 / 0\<close> is NaN.
\<close>

datatype jsnum = Fin real | PosInf | NegInf | NaN

definition jsRound :: "jsnum \<Rightarrow> jsnum" where
  "jsRound a = (case a of Fin r \<Rightarrow> Fin (double r) | _ \<Rightarrow> a)"

text \<open>
  The exact quotient of two finite numbers, with the special values of \<^verbatim>\<open>a / b\<close>.
  \<^verbatim>\<open>a / b\<close> itself is \<open>jsRound (jsDivide a b)\<close>.
\<close>

definition jsDivide :: "real \<Rightarrow> real \<Rightarrow> jsnum" where
  "jsDivide a b =
     (if b = 0 then (if a = 0 then NaN else if 0 < a then PosInf else NegInf)
      else Fin (a / b))"

text \<open>\<^verbatim>\<open>a > b\<close> and \<^verbatim>\<open>a < b\<close>; every comparison with NaN is false.\<close>

fun jsGreater :: "jsnum \<Rightarrow> jsnum \<Rightarrow> bool" where
  "jsGreater NaN _ = False"
| "jsGreater _ NaN = False"
| "jsGreater (Fin a) (Fin b) = (b < a)"
| "jsGreater PosInf PosInf = False"
| "jsGreater PosInf _ = True"
| "jsGreater NegInf _ = False"
| "jsGreater (Fin a) PosInf = False"
| "jsGreater (Fin a) NegInf = True"

definition jsLess :: "jsnum \<Rightarrow> jsnum \<Rightarrow> bool" where
  "jsLess a b = jsGreater b a"

text \<open>
  A thrown value. The code throws \<^verbatim>\<open>new Error(message)\<close>; the browser rejects with an
  \<^verbatim>\<open>Error\<close> (a failed fetch) or with an event object that has no \<^verbatim>\<open>message\<close> (the
  \<^verbatim>\<open>onerror\<close> handlers of \<^verbatim>\<open>FileReader\<close> and \<^verbatim>\<open>Image\<close>).
  An awaited promise is a sum: \<open>Inl\<close> is the rejection, \<open>Inr\<close> the value.
\<close>

datatype thrown = Error string | DomEvent

type_synonym 'a promise = "thrown + 'a"

text \<open>\<^verbatim>\<open>error.message || fallback\<close>: a missing or empty message gives the fallback.\<close>

definition messageOr :: "thrown \<Rightarrow> string \<Rightarrow> string" where
  "messageOr e fallback =
     (case e of Error m \<Rightarrow> (if m = [] then fallback else m) | DomEvent \<Rightarrow> fallback)"

text \<open>\<^verbatim>\<open>await p\<close> followed by the rest of the function: a rejection is rethrown.\<close>

definition await :: "'a promise \<Rightarrow> ('a \<Rightarrow> 'b promise) \<Rightarrow> 'b promise" where
  "await p k = (case p of Inl e \<Rightarrow> Inl e | Inr v \<Rightarrow> k v)"

text \<open>\<^verbatim>\<open>s.includes(sub)\<close>.\<close>

fun jsIncludes :: "string \<Rightarrow> string \<Rightarrow> bool" where
  "jsIncludes [] sub = (sub = [])"
| "jsIncludes (c # cs) sub = (take (length sub) (c # cs) = sub \<or> jsIncludes cs sub)"

text \<open>The decimal digits of a number, as a template literal prints it.\<close>

fun decimal :: "nat \<Rightarrow> string" where
  "decimal n =
     (if n < 10 then [''0123456789'' ! n]
      else decimal (n div 10) @ [''0123456789'' ! (n mod 10)])"

section \<open>The browser\<close>

type_synonym byte = "8 word"

text \<open>
  A decoded image: its size and its RGBA bytes, four per pixel, row by row, as
  \<^verbatim>\<open>getImageData\<close> returns them for a canvas the image was drawn on.
\<close>

record ImageData =
  width :: nat
  height :: nat
  data :: "byte list"

record Blob =
  blobType :: string
  blobBytes :: "byte list"

record File =
  fileName :: string
  fileType :: string
  fileBytes :: "byte list"

definition newFile :: "Blob \<Rightarrow> string \<Rightarrow> string \<Rightarrow> File" where
  "newFile blob name ty = \<lparr>fileName = name, fileType = ty, fileBytes = blobBytes blob\<rparr>"

definition blobOfFile :: "File \<Rightarrow> Blob" where
  "blobOfFile f = \<lparr>blobType = fileType f, blobBytes = fileBytes f\<rparr>"

text \<open>
  A canvas is its size and the drawing calls made on it, in order. Encoding a canvas
  (\<^verbatim>\<open>toDataURL\<close>, \<^verbatim>\<open>toBlob\<close>) is the browser's work.
\<close>

datatype drawOp =
    DrawImage ImageData jsnum jsnum jsnum jsnum
  | FillRect string jsnum jsnum jsnum jsnum
  | PutImageData "byte list"

record Canvas =
  canvasWidth :: nat
  canvasHeight :: nat
  drawn :: "drawOp list"

text \<open>The reply of \<^verbatim>\<open>POST /api/remove-background\<close>.\<close>

datatype jsonBody = BadJson | Json "string option"

datatype apiResponse = ApiOk "Blob promise" | ApiNotOk nat jsonBody

text \<open>
  Everything the code asks of the browser and the network. Each field answers one kind
  of call; a call that can reject returns a promise.
\<close>

record browser =
  readAsDataURL :: "File \<Rightarrow> string promise"
  fetchBlob :: "string \<Rightarrow> Blob promise"
  postRemoveBackground :: "File \<Rightarrow> apiResponse promise"
  decodeImage :: "string \<Rightarrow> ImageData promise"
  hasContext2d :: "nat \<Rightarrow> nat \<Rightarrow> bool"
  toDataURL :: "Canvas \<Rightarrow> string \<Rightarrow> string"
  toBlob :: "Canvas \<Rightarrow> string \<Rightarrow> Blob option"
  createObjectURL :: "Blob \<Rightarrow> string"

section \<open>imageProcessing.ts\<close>

definition fileToDataUrl :: "browser \<Rightarrow> File \<Rightarrow> string promise" where
  "fileToDataUrl env file = readAsDataURL env file"

definition loadImage :: "browser \<Rightarrow> string \<Rightarrow> ImageData promise" where
  "loadImage env src = decodeImage env src"

definition imageToCanvas :: "browser \<Rightarrow> ImageData \<Rightarrow> Canvas promise" where
  "imageToCanvas env img =
     (if \<not> hasContext2d env (width img) (height img)
      then Inl (Error ''Could not get canvas context'')
      else Inr \<lparr>canvasWidth = width img, canvasHeight = height img,
                drawn = [DrawImage img (Fin 0) (Fin 0)
                           (Fin (real (width img))) (Fin (real (height img)))]\<rparr>)"

definition canvasToDataUrl :: "browser \<Rightarrow> Canvas \<Rightarrow> string \<Rightarrow> string" where
  "canvasToDataUrl env canvas mimeType = toDataURL env canvas mimeType"

definition canvasToBlob :: "browser \<Rightarrow> Canvas \<Rightarrow> string \<Rightarrow> Blob promise" where
  "canvasToBlob env canvas mimeType =
     (case toBlob env canvas mimeType of
        Some blob \<Rightarrow> Inr blob
      | None \<Rightarrow> Inl (Error ''Failed to convert canvas to blob''))"

definition canvasToFile :: "browser \<Rightarrow> Canvas \<Rightarrow> string \<Rightarrow> string \<Rightarrow> File promise" where
  "canvasToFile env canvas name mimeType =
     await (canvasToBlob env canvas mimeType) (\<lambda>blob. Inr (newFile blob name mimeType))"

text \<open>
  \<^verbatim>\<open>dataUrlToFile\<close>: the three branches on the URL's scheme all fetch the URL and read
  the blob.
\<close>

definition dataUrlToFile :: "browser \<Rightarrow> string \<Rightarrow> string \<Rightarrow> File promise" where
  "dataUrlToFile env dataUrl name =
     await (fetchBlob env dataUrl) (\<lambda>blob.
       if blobType blob \<noteq> ''image/png'' \<and> jsIncludes name ''bg-removed'' then
         await (loadImage env dataUrl) (\<lambda>img.
         await (imageToCanvas env img) (\<lambda>canvas.
         await (canvasToBlob env canvas ''image/png'') (\<lambda>pngBlob.
           Inr (newFile pngBlob name ''image/png''))))
       else
         Inr (newFile blob name
               (if jsIncludes name ''bg-removed'' then ''image/png''
                else if blobType blob = [] then ''image/png'' else blobType blob)))"

section \<open>backgroundRemoval.ts\<close>

text \<open>
  The method is \<^verbatim>\<open>'replicate'\<close> or \<^verbatim>\<open>'client-side'\<close>; the constructors are capitalised
  because \<open>replicate\<close> is a function on lists.
\<close>

datatype Method = Replicate | ClientSide

text \<open>
  The debug record, without \<^verbatim>\<open>processingTimeMs\<close>, which reads the clock. Optional
  fields are options; the field \<^verbatim>\<open>method\<close> is \<open>methodUsed\<close> here.
\<close>

record BackgroundRemovalDebugInfo =
  methodUsed :: Method
  originalDimensions :: "nat \<times> nat"
  processedDimensions :: "nat \<times> nat"
  originalImageDataUrl :: "string option"
  processedImageDataUrl :: "string option"
  warnings :: "string list option"

record BackgroundRemovalResult =
  imageDataUrl :: string
  success :: bool
  error :: "string option"
  debug :: "BackgroundRemovalDebugInfo option"

text \<open>The \<^verbatim>\<open>catch\<close> block of \<^verbatim>\<open>removeBackgroundWithReplicate\<close>.\<close>

definition replicateFailed :: "bool \<Rightarrow> string option \<Rightarrow> thrown \<Rightarrow> BackgroundRemovalResult" where
  "replicateFailed includeDebug originalUrl e =
     \<lparr>imageDataUrl = [],
      success = False,
      error = Some (messageOr e ''Replicate API failed''),
      debug = (if includeDebug then
                 Some \<lparr>methodUsed = Replicate,
                       originalDimensions = (0, 0),
                       processedDimensions = (0, 0),
                       originalImageDataUrl = originalUrl,
                       processedImageDataUrl = None,
                       warnings = Some [messageOr e ''Replicate API failed'']\<rparr>
               else None)\<rparr>"

text \<open>
  The message thrown for a reply that is not ok:
  \<^verbatim>\<open>errorData.error || `API error: ${response.status}`\<close>, where a body that is not
  JSON counts as \<^verbatim>\<open>{ error: 'Unknown error' }\<close>.
\<close>

definition apiErrorMessage :: "nat \<Rightarrow> jsonBody \<Rightarrow> string" where
  "apiErrorMessage status body =
     (case body of
        BadJson \<Rightarrow> ''Unknown error''
      | Json None \<Rightarrow> ''API error: '' @ decimal status
      | Json (Some m) \<Rightarrow> (if m = [] then ''API error: '' @ decimal status else m))"

text \<open>
  The \<^verbatim>\<open>try\<close> block of \<^verbatim>\<open>removeBackgroundWithReplicate\<close> after its first statement,
  which has stored the original data URL when debugging.
\<close>

definition replicateBody ::
  "browser \<Rightarrow> File \<Rightarrow> bool \<Rightarrow> string option \<Rightarrow> BackgroundRemovalResult promise" where
  "replicateBody env imageFile includeDebug originalUrl =
     await (postRemoveBackground env imageFile) (\<lambda>response.
       case response of
         ApiNotOk status body \<Rightarrow> Inl (Error (apiErrorMessage status body))
       | ApiOk body \<Rightarrow>
           await body (\<lambda>blob.
           await
             (if blobType blob \<noteq> ''image/png'' then
                await (loadImage env (createObjectURL env blob)) (\<lambda>img.
                await (imageToCanvas env img) (\<lambda>canvas.
                  Inr (canvasToDataUrl env canvas ''image/png'', img)))
              else
                await (loadImage env (createObjectURL env blob)) (\<lambda>img.
                  Inr (createObjectURL env blob, img)))
             (\<lambda>(dataUrl, img).
           await
             (case originalUrl of
                Some url \<Rightarrow>
                  (if includeDebug \<and> url \<noteq> [] then
                     await (loadImage env url) (\<lambda>originalImg.
                       Inr (width originalImg, height originalImg))
                   else Inr (0, 0))
              | None \<Rightarrow> Inr (0, 0))
             (\<lambda>originalDims.
           Inr \<lparr>imageDataUrl = dataUrl,
                success = True,
                error = None,
                debug = (if includeDebug then
                           Some \<lparr>methodUsed = Replicate,
                                 originalDimensions = originalDims,
                                 processedDimensions = (width img, height img),
                                 originalImageDataUrl = originalUrl,
                                 processedImageDataUrl = Some dataUrl,
                                 warnings = None\<rparr>
                         else None)\<rparr>))))"

definition removeBackgroundWithReplicate ::
  "browser \<Rightarrow> File \<Rightarrow> bool \<Rightarrow> BackgroundRemovalResult promise" where
  "removeBackgroundWithReplicate env imageFile includeDebug =
     (case (if includeDebug
            then await (fileToDataUrl env imageFile) (\<lambda>url. Inr (Some url))
            else Inr None) of
        Inl e \<Rightarrow> Inr (replicateFailed includeDebug None e)
      | Inr originalUrl \<Rightarrow>
          (case replicateBody env imageFile includeDebug originalUrl of
             Inl e \<Rightarrow> Inr (replicateFailed includeDebug originalUrl e)
           | Inr result \<Rightarrow> Inr result))"

text \<open>
  The pixel loop of \<^verbatim>\<open>removeBackgroundClientSide\<close>:
  \<^verbatim>\<open>for (let i = 0; i < data.length; i += 4)\<close>. Reading past the end of the array gives
  \<^verbatim>\<open>undefined\<close>, the brightness is then NaN and the comparison false; writing past
  the end does nothing.
\<close>

definition brightness :: "byte \<Rightarrow> byte \<Rightarrow> byte \<Rightarrow> real" where
  "brightness r g b = real (unat r + unat g + unat b) / 3"

definition veryLight :: "byte list \<Rightarrow> nat \<Rightarrow> bool" where
  "veryLight d i =
     (i + 2 < length d \<and> brightness (d ! i) (d ! (i + 1)) (d ! (i + 2)) > 240)"

function removeLightPixels :: "nat \<Rightarrow> byte list \<Rightarrow> byte list" where
  "removeLightPixels i d =
     (if i < length d
      then removeLightPixels (i + 4) (if veryLight d i then d[i + 3 := 0] else d)
      else d)"
  by pat_completeness auto
termination
  by (relation "measure (\<lambda>(i, d). length d - i)") auto

text \<open>The \<^verbatim>\<open>catch\<close> block of \<^verbatim>\<open>removeBackgroundClientSide\<close>.\<close>

definition clientSideFailed :: "bool \<Rightarrow> string option \<Rightarrow> thrown \<Rightarrow> BackgroundRemovalResult" where
  "clientSideFailed includeDebug originalUrl e =
     \<lparr>imageDataUrl = [],
      success = False,
      error = Some (messageOr e ''Client-side removal failed''),
      debug = (if includeDebug then
                 Some \<lparr>methodUsed = ClientSide,
                       originalDimensions = (0, 0),
                       processedDimensions = (0, 0),
                       originalImageDataUrl = originalUrl,
                       processedImageDataUrl = None,
                       warnings = Some [messageOr e ''Client-side removal failed'']\<rparr>
               else None)\<rparr>"

text \<open>The canvas of the fallback after \<^verbatim>\<open>putImageData\<close>.\<close>

definition clientSideCanvas :: "Canvas \<Rightarrow> ImageData \<Rightarrow> Canvas" where
  "clientSideCanvas canvas img =
     canvas\<lparr>drawn := drawn canvas @ [PutImageData (removeLightPixels 0 (data img))]\<rparr>"

definition removeBackgroundClientSide ::
  "browser \<Rightarrow> File \<Rightarrow> bool \<Rightarrow> BackgroundRemovalResult promise" where
  "removeBackgroundClientSide env imageFile includeDebug =
     (let imageUrl = createObjectURL env (blobOfFile imageFile) in
      case loadImage env imageUrl of
        Inl e \<Rightarrow> Inr (clientSideFailed includeDebug None e)
      | Inr img \<Rightarrow>
          (let originalUrl = (if includeDebug then Some imageUrl else None) in
           case imageToCanvas env img of
             Inl e \<Rightarrow> Inr (clientSideFailed includeDebug originalUrl e)
           | Inr canvas \<Rightarrow>
               (if \<not> hasContext2d env (canvasWidth canvas) (canvasHeight canvas)
                then Inr (clientSideFailed includeDebug originalUrl
                            (Error ''Could not get canvas context''))
                else
                  (let resultDataUrl =
                         canvasToDataUrl env (clientSideCanvas canvas img) ''image/png''
                   in Inr \<lparr>imageDataUrl = resultDataUrl,
                           success = True,
                           error = None,
                           debug = (if includeDebug then
                                      Some \<lparr>methodUsed = ClientSide,
                                            originalDimensions = (width img, height img),
                                            processedDimensions = (width img, height img),
                                            originalImageDataUrl = originalUrl,
                                            processedImageDataUrl = Some resultDataUrl,
                                            warnings = Some [''Using basic client-side removal. For better results, configure REPLICATE_API_TOKEN.'']\<rparr>
                                    else None)\<rparr>))))"

text \<open>\<^verbatim>\<open>x || []\<close> on an optional array, and an optional string inside a template.\<close>

definition orEmpty :: "string list option \<Rightarrow> string list" where
  "orEmpty ws = (case ws of Some l \<Rightarrow> l | None \<Rightarrow> [])"

definition inTemplate :: "string option \<Rightarrow> string" where
  "inTemplate s = (case s of Some m \<Rightarrow> m | None \<Rightarrow> ''undefined'')"

text \<open>The merge of the two attempts' warnings in \<^verbatim>\<open>removeBackground\<close>.\<close>

definition mergeWarnings ::
  "bool \<Rightarrow> BackgroundRemovalResult \<Rightarrow> BackgroundRemovalResult \<Rightarrow> BackgroundRemovalResult" where
  "mergeWarnings includeDebug replicateResult fallbackResult =
     (case (debug replicateResult, debug fallbackResult) of
        (Some rd, Some fd) \<Rightarrow>
          (if includeDebug then
             fallbackResult\<lparr>debug :=
               Some (fd\<lparr>warnings :=
                 Some (orEmpty (warnings rd)
                       @ [''Replicate failed: '' @ inTemplate (error replicateResult)]
                       @ orEmpty (warnings fd))\<rparr>)\<rparr>
           else fallbackResult)
      | _ \<Rightarrow> fallbackResult)"

definition removeBackground ::
  "browser \<Rightarrow> File \<Rightarrow> bool \<Rightarrow> BackgroundRemovalResult promise" where
  "removeBackground env imageFile includeDebug =
     await (removeBackgroundWithReplicate env imageFile includeDebug) (\<lambda>replicateResult.
       if success replicateResult then Inr replicateResult
       else
         await (removeBackgroundClientSide env imageFile includeDebug) (\<lambda>fallbackResult.
           Inr (mergeWarnings includeDebug replicateResult fallbackResult)))"





section \<open>Browsers for the scenarios\<close>

text \<open>
  A two-pixel image, one pixel 250, 250, 250 and one red, and browsers that decode every
  URL to it. \<open>scenarioBrowser reply ctx\<close> answers the background-removal request with
  \<open>reply\<close> and gives out a drawing context when \<open>ctx\<close> holds.
\<close>

definition twoPixels :: ImageData where
  "twoPixels = \<lparr>width = 2, height = 1, data = [250, 250, 250, 255, 255, 0, 0, 255]\<rparr>"

definition pngBlob :: Blob where
  "pngBlob = \<lparr>blobType = ''image/png'', blobBytes = [1]\<rparr>"

definition scenarioBrowser :: "apiResponse promise \<Rightarrow> bool \<Rightarrow> browser" where
  "scenarioBrowser reply ctx =
     \<lparr>readAsDataURL = (\<lambda>f. Inr (''data:original,'' @ fileName f)),
      fetchBlob = (\<lambda>url. Inr pngBlob),
      postRemoveBackground = (\<lambda>f. reply),
      decodeImage = (\<lambda>url. Inr twoPixels),
      hasContext2d = (\<lambda>w h. ctx),
      toDataURL = (\<lambda>c m. ''data:image/png,canvas''),
      toBlob = (\<lambda>c m. Some pngBlob),
      createObjectURL = (\<lambda>b. ''blob:object'')\<rparr>"

text \<open>The remote service is down and the canvas works: the local fallback runs.\<close>

definition offlineBrowser :: browser where
  "offlineBrowser = scenarioBrowser (Inl (Error ''Failed to fetch'')) True"

text \<open>The remote service answers with a PNG; no drawing context is to be had.\<close>

definition remoteOnlyBrowser :: browser where
  "remoteOnlyBrowser = scenarioBrowser (Inr (ApiOk (Inr pngBlob))) False"

text \<open>The remote service is down and no drawing context is to be had.\<close>

definition brokenBrowser :: browser where
  "brokenBrowser = scenarioBrowser (Inl (Error ''Failed to fetch'')) False"

text \<open>
  Two images 3 wide and 4 high: one all white, one white with a black pixel at column 1
  of row 1, in the top half. A browser that decodes every URL to a given image.
\<close>

definition whitePixel :: "byte list" where
  "whitePixel = [255, 255, 255, 255]"

definition blackPixel :: "byte list" where
  "blackPixel = [0, 0, 0, 255]"


definition topHeavyImage :: ImageData where
  "topHeavyImage =
     \<lparr>width = 3, height = 4,
      data = whitePixel @ whitePixel @ whitePixel
           @ whitePixel @ blackPixel @ whitePixel
           @ whitePixel @ whitePixel @ whitePixel
           @ whitePixel @ whitePixel @ whitePixel\<rparr>"

definition showing :: "ImageData \<Rightarrow> browser" where
  "showing img = offlineBrowser\<lparr>decodeImage := (\<lambda>url. Inr img)\<rparr>"

text \<open>The same without a drawing context: the image loads, the canvas cannot be read.\<close>

definition withoutCanvas :: "ImageData \<Rightarrow> browser" where
  "withoutCanvas img = brokenBrowser\<lparr>decodeImage := (\<lambda>url. Inr img)\<rparr>"

text \<open>
  An image 7 wide and 6 high of black and white pixels. Of the pixels the edge loop
  visits, all ten of rows 1 and 2 differ from their right neighbour, and seven of the ten
  of rows 3 and 4 differ from their right or lower neighbour.
\<close>

definition stripedImage :: ImageData where
  "stripedImage =
     \<lparr>width = 7, height = 6,
      data =
        whitePixel @ whitePixel @ whitePixel @ whitePixel @ whitePixel @ whitePixel @ whitePixel
      @ blackPixel @ whitePixel @ blackPixel @ whitePixel @ blackPixel @ whitePixel @ blackPixel
      @ blackPixel @ whitePixel @ blackPixel @ whitePixel @ blackPixel @ whitePixel @ blackPixel
      @ whitePixel @ whitePixel @ whitePixel @ whitePixel @ blackPixel @ whitePixel @ blackPixel
      @ whitePixel @ blackPixel @ whitePixel @ blackPixel @ whitePixel @ whitePixel @ whitePixel
      @ whitePixel @ whitePixel @ whitePixel @ whitePixel @ whitePixel @ whitePixel @ whitePixel\<rparr>"

definition personFile :: File where
  "personFile = \<lparr>fileName = ''person.jpg'', fileType = ''image/jpeg'', fileBytes = [2]\<rparr>"

definition garmentFile :: File where
  "garmentFile = \<lparr>fileName = ''garment.jpg'', fileType = ''image/jpeg'', fileBytes = [3]\<rparr>"

section \<open>garmentSegmentation.ts: the classifier\<close>

text \<open>
  The garment types \<^verbatim>\<open>'top'\<close>, \<^verbatim>\<open>'bottom'\<close>, \<^verbatim>\<open>'fullBody'\<close> and \<^verbatim>\<open>'completeOutfit'\<close>;
  the constructors are capitalised because \<open>top\<close> is a constant of the library.
\<close>

datatype GarmentType = Top | Bottom | FullBody | CompleteOutfit

datatype AspectRatioAnalysis = likelyTop | likelyBottom | likelyFullBody

text \<open>
  \<^verbatim>\<open>detectGarmentTypeByAspectRatio(width, height)\<close>. The callers pass the width and
  height of a canvas, which are non-negative integers below \<open>2 ^ 32\<close>. The quotient is
  only compared with 1.2 and 0.8, and for such integers the rounded quotient lies on the
  same side of the doubles 1.2 and 0.8 as the exact quotient lies of 6/5 and 4/5, so the
  exact quotient and the exact constants are compared.
\<close>

definition detectGarmentTypeByAspectRatio :: "nat \<Rightarrow> nat \<Rightarrow> AspectRatioAnalysis" where
  "detectGarmentTypeByAspectRatio w h =
     (let aspectRatio = jsDivide (real w) (real h) in
      if jsGreater aspectRatio (Fin 1.2) then likelyTop
      else if jsLess aspectRatio (Fin 0.8) then likelyBottom
      else likelyFullBody)"

text \<open>
  \<^verbatim>\<open>analyzeEdgeDensity(imageData)\<close>. The two nested loops run over the rows
  \<open>1 \<le> y < height - 1\<close> and the columns \<open>1 \<le> x < width - 1\<close> and keep four counters.
  A read past the end of the array makes the gradient NaN, which is not above 30.
\<close>

record EdgeCounts =
  topEdges :: nat
  bottomEdges :: nat
  topPixels :: nat
  bottomPixels :: nat

record EdgeDensity =
  topEdgeDensity :: real
  bottomEdgeDensity :: real

text \<open>\<^verbatim>\<open>Math.abs(data[i] - data[j])\<close>.\<close>

definition absDiff :: "byte list \<Rightarrow> nat \<Rightarrow> nat \<Rightarrow> nat" where
  "absDiff d i j = nat \<bar>int (unat (d ! i)) - int (unat (d ! j))\<bar>"

definition gradient :: "byte list \<Rightarrow> nat \<Rightarrow> nat \<Rightarrow> nat \<Rightarrow> real" where
  "gradient d w x y =
     (let idx = (y * w + x) * 4;
          idxRight = (y * w + (x + 1)) * 4;
          idxBottom = ((y + 1) * w + x) * 4;
          rDiffX = absDiff d idx idxRight;
          gDiffX = absDiff d (idx + 1) (idxRight + 1);
          bDiffX = absDiff d (idx + 2) (idxRight + 2);
          rDiffY = absDiff d idx idxBottom;
          gDiffY = absDiff d (idx + 1) (idxBottom + 1);
          bDiffY = absDiff d (idx + 2) (idxBottom + 2)
      in sqrt (real ((rDiffX + gDiffX + bDiffX)\<^sup>2 + (rDiffY + gDiffY + bDiffY)\<^sup>2)))"

definition isEdge :: "byte list \<Rightarrow> nat \<Rightarrow> nat \<Rightarrow> nat \<Rightarrow> bool" where
  "isEdge d w x y =
     ((y * w + (x + 1)) * 4 + 2 < length d \<and> ((y + 1) * w + x) * 4 + 2 < length d
      \<and> gradient d w x y > 30)"

definition countPixel :: "ImageData \<Rightarrow> nat \<Rightarrow> nat \<Rightarrow> EdgeCounts \<Rightarrow> EdgeCounts" where
  "countPixel imageData y x c =
     (let topHalfHeight = height imageData div 2;
          c1 = (if isEdge (data imageData) (width imageData) x y
                then (if y < topHalfHeight
                      then c\<lparr>topEdges := topEdges c + 1\<rparr>
                      else c\<lparr>bottomEdges := bottomEdges c + 1\<rparr>)
                else c)
      in if y < topHalfHeight
         then c1\<lparr>topPixels := topPixels c1 + 1\<rparr>
         else c1\<lparr>bottomPixels := bottomPixels c1 + 1\<rparr>)"

definition countEdges :: "ImageData \<Rightarrow> EdgeCounts" where
  "countEdges imageData =
     fold (\<lambda>y. fold (countPixel imageData y) [1..<width imageData - 1])
       [1..<height imageData - 1]
       \<lparr>topEdges = 0, bottomEdges = 0, topPixels = 0, bottomPixels = 0\<rparr>"

definition analyzeEdgeDensity :: "ImageData \<Rightarrow> EdgeDensity" where
  "analyzeEdgeDensity imageData =
     (let c = countEdges imageData in
      \<lparr>topEdgeDensity =
         (if topPixels c > 0 then double (real (topEdges c) / real (topPixels c)) else 0),
       bottomEdgeDensity =
         (if bottomPixels c > 0
          then double (real (bottomEdges c) / real (bottomPixels c)) else 0)\<rparr>)"

section \<open>garmentSegmentation.ts: detection and segmentation\<close>

datatype Decision = usingFullImage | usingRegionCropping

text \<open>
  The detected type is one of \<^verbatim>\<open>'top'\<close>, \<^verbatim>\<open>'bottom'\<close>, \<^verbatim>\<open>'fullBody'\<close> or missing.
  A rectangle is x, y, width, height.
\<close>

record SegmentationDebugInfo =
  selectedGarmentType :: GarmentType
  aspectRatio :: jsnum
  aspectRatioAnalysis :: AspectRatioAnalysis
  edgeDensity :: EdgeDensity
  detectionConfidence :: real
  isSingleGarment :: bool
  detectedType :: "GarmentType option"
  decision :: Decision
  regionCoordinates :: "(real \<times> real \<times> real \<times> real) option"
  originalDimensions :: "nat \<times> nat"
  processedDimensions :: "real \<times> real"
  originalImageDataUrl :: "string option"
  segmentedImageDataUrl :: "string option"

record SegmentationResult =
  segmentedImageDataUrl :: string
  success :: bool
  error :: "string option"
  debug :: "SegmentationDebugInfo option"

record SingleGarmentDetection =
  isSingleGarment :: bool
  confidence :: real
  detectedType :: "GarmentType option"

text \<open>
  The part of \<^verbatim>\<open>detectSingleGarment\<close> after the canvas has been read, for the
  declared types \<^verbatim>\<open>'top'\<close> and \<^verbatim>\<open>'bottom'\<close>: the two \<^verbatim>\<open>if\<close> blocks and the result.
  The literals 0.3, 0.7 and 0.6 are the doubles nearest to them, and the difference, its
  double and the sum are rounded.
\<close>

definition scoreSingleGarment :: "ImageData \<Rightarrow> GarmentType \<Rightarrow> SingleGarmentDetection" where
  "scoreSingleGarment imageData userSelectedType =
     (let aspectRatioType =
            detectGarmentTypeByAspectRatio (width imageData) (height imageData);
          density = analyzeEdgeDensity imageData;
          t = topEdgeDensity density;
          b = bottomEdgeDensity density;
          (confidence1, detected1) =
            (if userSelectedType = Top then
               (let aspectRatioMatch = (if aspectRatioType = likelyTop then double 0.3 else 0);
                    edgeMatch = (if t > b
                                 then min (double (double (t - b) * 2)) (double 0.7) else 0);
                    c = double (aspectRatioMatch + edgeMatch)
                in (c, if c > double 0.6 then Some Top else None))
             else (0, None));
          (confidence2, detected2) =
            (if userSelectedType = Bottom then
               (let aspectRatioMatch =
                      (if aspectRatioType = likelyBottom then double 0.3 else 0);
                    edgeMatch = (if b > t
                                 then min (double (double (b - t) * 2)) (double 0.7) else 0);
                    c = double (aspectRatioMatch + edgeMatch)
                in (c, if c > double 0.6 then Some Bottom else detected1))
             else (confidence1, detected1))
      in \<lparr>isSingleGarment =
            (confidence2 > double 0.6 \<and>
             ((userSelectedType = Top \<and> detected2 = Some Top) \<or>
              (userSelectedType = Bottom \<and> detected2 = Some Bottom))),
          confidence = confidence2,
          detectedType = detected2\<rparr>)"

text \<open>
  The canvas is sized to the image and the image is drawn at its origin, so
  \<^verbatim>\<open>getImageData(0, 0, width, height)\<close> returns the image's own pixels.
\<close>

definition getImageData :: "Canvas \<Rightarrow> ImageData \<Rightarrow> ImageData" where
  "getImageData canvas img =
     \<lparr>width = canvasWidth canvas, height = canvasHeight canvas, data = data img\<rparr>"

definition detectSingleGarment ::
  "browser \<Rightarrow> string \<Rightarrow> GarmentType \<Rightarrow> SingleGarmentDetection promise" where
  "detectSingleGarment env imageUrl userSelectedType =
     (if userSelectedType = FullBody \<or> userSelectedType = CompleteOutfit then
        Inr \<lparr>isSingleGarment = True, confidence = 1.0, detectedType = Some FullBody\<rparr>
      else
        (case
           await (loadImage env imageUrl) (\<lambda>img.
           await (imageToCanvas env img) (\<lambda>canvas.
             if \<not> hasContext2d env (canvasWidth canvas) (canvasHeight canvas)
             then Inl (Error ''Could not get canvas context'')
             else Inr (scoreSingleGarment (getImageData canvas img) userSelectedType)))
         of
           Inl e \<Rightarrow> Inr \<lparr>isSingleGarment = False, confidence = 0, detectedType = None\<rparr>
         | Inr r \<Rightarrow> Inr r))"

text \<open>
  \<^verbatim>\<open>Math.round(x * k) / k\<close>: the product is rounded to a double, \<^verbatim>\<open>Math.round\<close> takes
  the nearest integer of that double, halves up, and the quotient is rounded again.
\<close>

definition roundTo :: "real \<Rightarrow> real \<Rightarrow> real" where
  "roundTo k x = double (of_int \<lfloor>double (x * k) + 1 / 2\<rfloor> / k)"

definition jsRoundTo :: "real \<Rightarrow> jsnum \<Rightarrow> jsnum" where
  "jsRoundTo k x = (case x of Fin r \<Rightarrow> Fin (roundTo k r) | _ \<Rightarrow> x)"

definition roundedDensity :: "EdgeDensity \<Rightarrow> EdgeDensity" where
  "roundedDensity e =
     \<lparr>topEdgeDensity = roundTo 1000 (topEdgeDensity e),
      bottomEdgeDensity = roundTo 1000 (bottomEdgeDensity e)\<rparr>"

text \<open>
  Assigning a non-negative number to \<^verbatim>\<open>canvas.width\<close> truncates it (the model leaves
  out the wrap at \<open>2 ^ 32\<close>).
\<close>

definition toUnsignedLong :: "real \<Rightarrow> nat" where
  "toUnsignedLong r = nat \<lfloor>r\<rfloor>"

text \<open>
  The region-cropping tail of \<^verbatim>\<open>segmentGarment\<close>, which follows the two early
  returns. The source copies the rectangle's pixels to a new canvas of the rectangle's
  size; here the image is drawn on that canvas shifted by the rectangle's corner, which
  leaves the same pixels on it.
\<close>

definition cropRegion ::
  "browser \<Rightarrow> ImageData \<Rightarrow> string \<Rightarrow> GarmentType \<Rightarrow> bool \<Rightarrow> jsnum \<Rightarrow>
   AspectRatioAnalysis \<Rightarrow> EdgeDensity \<Rightarrow> SegmentationResult promise" where
  "cropRegion env imageData imageUrl garmentType includeDebug ratio analysis density =
     (let w = width imageData; h = height imageData in
      if \<not> hasContext2d env w h then Inl (Error ''Could not get result canvas context'')
      else
        (let (regionX, regionY, regionWidth, regionHeight) =
               (case garmentType of
                  Top \<Rightarrow> (0, 0, real w, double (real h * double 0.6))
                | Bottom \<Rightarrow> (0, double (real h * double 0.4), real w,
                            double (real h * double 0.6))
                | FullBody \<Rightarrow> (0, 0, real w, real h)
                | CompleteOutfit \<Rightarrow> (0, 0, real w, real h));
             segmentedCanvas =
               \<lparr>canvasWidth = toUnsignedLong regionWidth,
                canvasHeight = toUnsignedLong regionHeight,
                drawn = [DrawImage imageData (Fin (- regionX)) (Fin (- regionY))
                           (Fin (real w)) (Fin (real h))]\<rparr>
         in if \<not> hasContext2d env (canvasWidth segmentedCanvas) (canvasHeight segmentedCanvas)
            then Inl (Error ''Could not get segmented canvas context'')
            else
              (let resultDataUrl = canvasToDataUrl env segmentedCanvas ''image/png'' in
               Inr \<lparr>segmentedImageDataUrl = resultDataUrl,
                    success = True,
                    error = None,
                    debug =
                      (if includeDebug then
                         Some \<lparr>selectedGarmentType = garmentType,
                               aspectRatio = jsRoundTo 100 ratio,
                               aspectRatioAnalysis = analysis,
                               edgeDensity = roundedDensity density,
                               detectionConfidence = 0,
                               isSingleGarment = False,
                               detectedType = None,
                               decision = usingRegionCropping,
                               regionCoordinates =
                                 Some (regionX, regionY, regionWidth, regionHeight),
                               originalDimensions = (w, h),
                               processedDimensions = (regionWidth, regionHeight),
                               originalImageDataUrl = Some imageUrl,
                               segmentedImageDataUrl = Some resultDataUrl\<rparr>
                       else None)\<rparr>)))"

text \<open>The debug record of the two early returns of \<^verbatim>\<open>segmentGarment\<close>.\<close>

definition fullImageDebug ::
  "ImageData \<Rightarrow> string \<Rightarrow> GarmentType \<Rightarrow> GarmentType \<Rightarrow> jsnum \<Rightarrow>
   AspectRatioAnalysis \<Rightarrow> EdgeDensity \<Rightarrow> SegmentationDebugInfo" where
  "fullImageDebug imageData imageUrl garmentType detected ratio analysis density =
     \<lparr>selectedGarmentType = garmentType,
      aspectRatio = jsRoundTo 100 ratio,
      aspectRatioAnalysis = analysis,
      edgeDensity = roundedDensity density,
      detectionConfidence = 1.0,
      isSingleGarment = True,
      detectedType = Some detected,
      decision = usingFullImage,
      regionCoordinates = None,
      originalDimensions = (width imageData, height imageData),
      processedDimensions = (real (width imageData), real (height imageData)),
      originalImageDataUrl = Some imageUrl,
      segmentedImageDataUrl = Some imageUrl\<rparr>"

text \<open>The \<^verbatim>\<open>try\<close> block of \<^verbatim>\<open>segmentGarment\<close>.\<close>

definition segmentGarmentBody ::
  "browser \<Rightarrow> string \<Rightarrow> GarmentType \<Rightarrow> bool \<Rightarrow> SegmentationResult promise" where
  "segmentGarmentBody env imageUrl garmentType includeDebug =
     await (loadImage env imageUrl) (\<lambda>img.
     await (imageToCanvas env img) (\<lambda>canvas.
       if \<not> hasContext2d env (canvasWidth canvas) (canvasHeight canvas)
       then Inl (Error ''Could not get canvas context'')
       else
         (let imageData = getImageData canvas img;
              ratio = jsRound (jsDivide (real (width imageData)) (real (height imageData)));
              analysis = detectGarmentTypeByAspectRatio (width imageData) (height imageData);
              density = analyzeEdgeDensity imageData
          in if garmentType = Top \<or> garmentType = Bottom then
               Inr \<lparr>segmentedImageDataUrl = imageUrl,
                    success = True,
                    error = None,
                    debug = (if includeDebug then
                               Some (fullImageDebug imageData imageUrl garmentType
                                       (if garmentType = Top then Top else Bottom)
                                       ratio analysis density)
                             else None)\<rparr>
             else if garmentType = FullBody \<or> garmentType = CompleteOutfit then
               Inr \<lparr>segmentedImageDataUrl = imageUrl,
                    success = True,
                    error = None,
                    debug = (if includeDebug then
                               Some (fullImageDebug imageData imageUrl garmentType FullBody
                                       ratio analysis density)
                             else None)\<rparr>
             else cropRegion env imageData imageUrl garmentType includeDebug
                    ratio analysis density)))"

definition segmentGarment ::
  "browser \<Rightarrow> string \<Rightarrow> GarmentType \<Rightarrow> bool \<Rightarrow> SegmentationResult promise" where
  "segmentGarment env imageUrl garmentType includeDebug =
     (case segmentGarmentBody env imageUrl garmentType includeDebug of
        Inl e \<Rightarrow> Inr \<lparr>segmentedImageDataUrl = [],
                      success = False,
                      error = Some (messageOr e ''Segmentation failed''),
                      debug = None\<rparr>
      | Inr r \<Rightarrow> Inr r)"

text \<open>\<^verbatim>\<open>getSegmentedGarment\<close>: both branches call \<^verbatim>\<open>segmentGarment\<close>.\<close>

definition getSegmentedGarment ::
  "browser \<Rightarrow> string \<Rightarrow> GarmentType \<Rightarrow> bool \<Rightarrow> bool \<Rightarrow> SegmentationResult promise" where
  "getSegmentedGarment env imageUrl garmentType useAdvanced includeDebug =
     (if useAdvanced
      then segmentGarment env imageUrl garmentType includeDebug
      else segmentGarment env imageUrl garmentType includeDebug)"

section \<open>backgroundCompositing.ts\<close>

text \<open>
  Arithmetic on JavaScript numbers, for the layout of the composite canvas: a finite
  result is rounded to a double. NaN is contagious; an infinity times zero, an infinity
  over an infinity and the difference of two equal infinities are NaN. The sign of zero
  is not modelled.
\<close>

definition signOf :: "jsnum \<Rightarrow> real" where
  "signOf a = (case a of Fin x \<Rightarrow> sgn x | PosInf \<Rightarrow> 1 | NegInf \<Rightarrow> - 1 | NaN \<Rightarrow> 0)"

definition signedInf :: "real \<Rightarrow> jsnum" where
  "signedInf s = (if s = 0 then NaN else if 0 < s then PosInf else NegInf)"

fun jsTimes :: "jsnum \<Rightarrow> jsnum \<Rightarrow> jsnum" where
  "jsTimes NaN _ = NaN"
| "jsTimes _ NaN = NaN"
| "jsTimes (Fin x) (Fin y) = Fin (double (x * y))"
| "jsTimes a b = signedInf (signOf a * signOf b)"

fun jsOver :: "jsnum \<Rightarrow> jsnum \<Rightarrow> jsnum" where
  "jsOver NaN _ = NaN"
| "jsOver _ NaN = NaN"
| "jsOver (Fin x) (Fin y) = jsRound (jsDivide x y)"
| "jsOver (Fin x) _ = Fin 0"
| "jsOver a (Fin y) = signedInf (signOf a * (if y < 0 then - 1 else 1))"
| "jsOver _ _ = NaN"

fun jsMinus :: "jsnum \<Rightarrow> jsnum \<Rightarrow> jsnum" where
  "jsMinus NaN _ = NaN"
| "jsMinus _ NaN = NaN"
| "jsMinus (Fin x) (Fin y) = Fin (double (x - y))"
| "jsMinus PosInf PosInf = NaN"
| "jsMinus NegInf NegInf = NaN"
| "jsMinus PosInf _ = PosInf"
| "jsMinus NegInf _ = NegInf"
| "jsMinus (Fin x) PosInf = NegInf"
| "jsMinus (Fin x) NegInf = PosInf"

text \<open>\<^verbatim>\<open>Math.max(a, b)\<close>.\<close>

definition jsMax :: "jsnum \<Rightarrow> jsnum \<Rightarrow> jsnum" where
  "jsMax a b = (if a = NaN \<or> b = NaN then NaN else if jsGreater a b then a else b)"

text \<open>
  Assigning a number to \<^verbatim>\<open>canvas.width\<close>: NaN and the infinities become 0, a finite
  number is truncated. The numbers assigned here are never negative.
\<close>

definition canvasDimension :: "jsnum \<Rightarrow> nat" where
  "canvasDimension a = (case a of Fin r \<Rightarrow> toUnsignedLong r | _ \<Rightarrow> 0)"

datatype BackgroundType = White | Studio | FittingRoom

text \<open>The type as the string it is in the source.\<close>

definition backgroundName :: "BackgroundType \<Rightarrow> string" where
  "backgroundName b =
     (case b of White \<Rightarrow> ''white'' | Studio \<Rightarrow> ''studio'' | FittingRoom \<Rightarrow> ''fitting-room'')"

record BackgroundCompositingResult =
  compositedImageDataUrl :: string
  compositedImageFile :: File
  success :: bool
  error :: "string option"

text \<open>\<^verbatim>\<open>loadBackgroundImage\<close>: \<^verbatim>\<open>null\<close> for white and for an image that fails to load.\<close>

definition loadBackgroundImage :: "browser \<Rightarrow> BackgroundType \<Rightarrow> ImageData option" where
  "loadBackgroundImage env backgroundType =
     (if backgroundType = White then None
      else (case loadImage env (''/backgrounds/'' @ backgroundName backgroundType @ ''.jpg'') of
              Inl e \<Rightarrow> None
            | Inr img \<Rightarrow> Some img))"

text \<open>
  The scan of the alpha channel:
  \<^verbatim>\<open>for (let i = 3; i < data.length; i += 4) if (data[i] < 255)\<close>.
\<close>

fun hasTransparency :: "byte list \<Rightarrow> bool" where
  "hasTransparency (r # g # b # a # rest) = (a < 255 \<or> hasTransparency rest)"
| "hasTransparency _ = False"

text \<open>
  The first part of \<^verbatim>\<open>compositeImageWithBackground\<close>: the foreground image. An opaque
  image is sent through \<^verbatim>\<open>removeBackground\<close>; whatever fails there is caught and the
  original image kept. Without a context for the temporary canvas the check is skipped.
\<close>

definition compositeForeground :: "browser \<Rightarrow> string \<Rightarrow> ImageData promise" where
  "compositeForeground env imageUrl =
     await (loadImage env imageUrl) (\<lambda>foregroundImg.
       if hasContext2d env (width foregroundImg) (height foregroundImg)
          \<and> \<not> hasTransparency (data foregroundImg)
       then
         (case
            await (dataUrlToFile env imageUrl ''gemini-output.png'') (\<lambda>imageFile.
            await (removeBackground env imageFile False) (\<lambda>bgRemovalResult.
              if BackgroundRemovalResult.success bgRemovalResult
                 \<and> imageDataUrl bgRemovalResult \<noteq> []
              then loadImage env (imageDataUrl bgRemovalResult)
              else Inr foregroundImg))
          of Inl e \<Rightarrow> Inr foregroundImg
           | Inr img \<Rightarrow> Inr img)
       else Inr foregroundImg)"

text \<open>
  The canvas dimensions as the JavaScript numbers \<^verbatim>\<open>canvasWidth\<close> and
  \<^verbatim>\<open>canvasHeight\<close>, from the foreground's size and the background image, if any.
\<close>

definition canvasSize :: "nat \<Rightarrow> nat \<Rightarrow> ImageData option \<Rightarrow> jsnum \<times> jsnum" where
  "canvasSize foregroundWidth foregroundHeight backgroundImg =
     (case backgroundImg of
        None \<Rightarrow> (Fin (real foregroundWidth), Fin (real foregroundHeight))
      | Some bg \<Rightarrow>
          (let bgAspect = jsOver (Fin (real (width bg))) (Fin (real (height bg)));
               fgAspect = jsOver (Fin (real foregroundWidth)) (Fin (real foregroundHeight))
           in if jsGreater bgAspect fgAspect
              then (jsTimes (Fin (real foregroundHeight)) bgAspect, Fin (real foregroundHeight))
              else (Fin (real foregroundWidth), jsOver (Fin (real foregroundWidth)) bgAspect)))"

text \<open>The drawing of the background: a white fill or the scaled, centred image.\<close>

definition drawBackground :: "BackgroundType \<Rightarrow> ImageData option \<Rightarrow> jsnum \<Rightarrow> jsnum \<Rightarrow> drawOp" where
  "drawBackground backgroundType backgroundImg cw ch =
     (if backgroundType = White then FillRect ''#FFFFFF'' (Fin 0) (Fin 0) cw ch
      else (case backgroundImg of
              Some bg \<Rightarrow>
                (let scale = jsMax (jsOver cw (Fin (real (width bg))))
                                   (jsOver ch (Fin (real (height bg))));
                     scaledWidth = jsTimes (Fin (real (width bg))) scale;
                     scaledHeight = jsTimes (Fin (real (height bg))) scale;
                     x = jsOver (jsMinus cw scaledWidth) (Fin 2);
                     y = jsOver (jsMinus ch scaledHeight) (Fin 2)
                 in DrawImage bg x y scaledWidth scaledHeight)
            | None \<Rightarrow> FillRect ''#FFFFFF'' (Fin 0) (Fin 0) cw ch))"

text \<open>The composite canvas once both drawings are made.\<close>

definition compositeCanvas :: "ImageData \<Rightarrow> BackgroundType \<Rightarrow> ImageData option \<Rightarrow> Canvas" where
  "compositeCanvas foregroundImg backgroundType backgroundImg =
     (let (cw, ch) = canvasSize (width foregroundImg) (height foregroundImg) backgroundImg;
          foregroundX = jsOver (jsMinus cw (Fin (real (width foregroundImg)))) (Fin 2);
          foregroundY = jsOver (jsMinus ch (Fin (real (height foregroundImg)))) (Fin 2)
      in \<lparr>canvasWidth = canvasDimension cw,
          canvasHeight = canvasDimension ch,
          drawn = [drawBackground backgroundType backgroundImg cw ch,
                   DrawImage foregroundImg foregroundX foregroundY
                     (Fin (real (width foregroundImg))) (Fin (real (height foregroundImg)))]\<rparr>)"

definition compositeImageWithBackground ::
  "browser \<Rightarrow> string \<Rightarrow> BackgroundType \<Rightarrow> BackgroundCompositingResult promise" where
  "compositeImageWithBackground env imageUrl backgroundType =
     (case
        await (compositeForeground env imageUrl) (\<lambda>foregroundImg.
          let backgroundImg = loadBackgroundImage env backgroundType;
              canvas = compositeCanvas foregroundImg backgroundType backgroundImg
          in if \<not> hasContext2d env (canvasWidth canvas) (canvasHeight canvas)
             then Inl (Error ''Could not get canvas context'')
             else
               await (canvasToFile env canvas
                        (''composited-'' @ backgroundName backgroundType @ ''.png'')
                        ''image/png'') (\<lambda>file.
                 Inr \<lparr>compositedImageDataUrl = canvasToDataUrl env canvas ''image/png'',
                      compositedImageFile = file,
                      success = True,
                      error = None\<rparr>))
      of
        Inl e \<Rightarrow>
          Inr \<lparr>compositedImageDataUrl = [],
               compositedImageFile =
                 \<lparr>fileName = ''error.png'', fileType = [], fileBytes = []\<rparr>,
               success = False,
               error = Some (messageOr e ''Background compositing failed'')\<rparr>
      | Inr r \<Rightarrow> Inr r)"

text \<open>
  Images of one colour, and a browser with a studio backdrop of 1920 by 1080: it decodes
  the backdrop's path to that, every other URL to a transparent image of 500 by 500, and
  writes a canvas's size into its data URL.
\<close>

definition solid :: "nat \<Rightarrow> nat \<Rightarrow> byte \<Rightarrow> ImageData" where
  "solid w h v = \<lparr>width = w, height = h, data = replicate (4 * w * h) v\<rparr>"

definition studioBrowser :: browser where
  "studioBrowser =
     offlineBrowser
       \<lparr>decodeImage := (\<lambda>url. if url = ''/backgrounds/studio.jpg''
                              then Inr (solid 1920 1080 255) else Inr (solid 500 500 0)),
        toDataURL := (\<lambda>c m. ''data:'' @ m @ '','' @ decimal (canvasWidth c)
                              @ ''x'' @ decimal (canvasHeight c))\<rparr>"

section \<open>The preprocessing pipeline\<close>

record Steps =
  personBackgroundRemoved :: bool
  garmentBackgroundRemoved :: bool
  garmentSegmented :: bool

text \<open>
  The debug record, without \<^verbatim>\<open>totalProcessingTimeMs\<close>, which reads the clock, and
  without the fields that only the page fills in after the pipeline has returned.
\<close>

record PreprocessingDebugInfo =
  personBackgroundRemoval :: "BackgroundRemovalDebugInfo option"
  garmentBackgroundRemoval :: "BackgroundRemovalDebugInfo option"
  garmentSegmentation :: "SegmentationDebugInfo option"
  originalPersonImageDataUrl :: "string option"
  originalGarmentImageDataUrl :: "string option"
  personImageAfterBackgroundRemoval :: "string option"
  garmentImageAfterBackgroundRemoval :: "string option"
  garmentImageAfterSegmentation :: "string option"
  finalPersonImageDataUrl :: "string option"
  finalGarmentImageDataUrl :: "string option"

record PreprocessingResult =
  processedPersonImage :: File
  processedGarmentImage :: File
  personImageDataUrl :: string
  garmentImageDataUrl :: string
  success :: bool
  error :: "string option"
  steps :: Steps
  debug :: "PreprocessingDebugInfo option"

text \<open>
  The options; every field may be left out. The field \<^verbatim>\<open>segmentGarment\<close> is named
  \<open>segmentGarmentOption\<close> here, apart from the function of that name.
\<close>

record PreprocessingOptions =
  removePersonBackground :: "bool option"
  removeGarmentBackground :: "bool option"
  segmentGarmentOption :: "bool option"
  garmentType :: "GarmentType option"
  useAdvancedSegmentation :: "bool option"
  includeDebug :: "bool option"

text \<open>A destructuring default: \<^verbatim>\<open>{ x = d } = options\<close>.\<close>

definition orDefault :: "'a \<Rightarrow> 'a option \<Rightarrow> 'a" where
  "orDefault d v = (case v of Some x \<Rightarrow> x | None \<Rightarrow> d)"

text \<open>
  The \<^verbatim>\<open>try\<close> block mutates \<^verbatim>\<open>steps\<close> and \<^verbatim>\<open>debugInfo\<close>, and the \<^verbatim>\<open>catch\<close> block
  reads them. A run of the block is therefore its outcome together with the two objects
  as they are when it ends or throws.
\<close>

type_synonym progress = "Steps \<times> PreprocessingDebugInfo"

type_synonym 'a run = "'a promise \<times> progress"

definition attempt :: "'a promise \<Rightarrow> progress \<Rightarrow> ('a \<Rightarrow> 'b run) \<Rightarrow> 'b run" where
  "attempt p st k = (case p of Inl e \<Rightarrow> (Inl e, st) | Inr v \<Rightarrow> k v)"

definition initialProgress :: progress where
  "initialProgress =
     (\<lparr>personBackgroundRemoved = False, garmentBackgroundRemoved = False,
       garmentSegmented = False\<rparr>,
      \<lparr>personBackgroundRemoval = None, garmentBackgroundRemoval = None,
       garmentSegmentation = None, originalPersonImageDataUrl = None,
       originalGarmentImageDataUrl = None, personImageAfterBackgroundRemoval = None,
       garmentImageAfterBackgroundRemoval = None, garmentImageAfterSegmentation = None,
       finalPersonImageDataUrl = None, finalGarmentImageDataUrl = None\<rparr>)"

text \<open>The progress after the two files have been read: the originals, when debugging.\<close>

definition storeOriginals :: "bool \<Rightarrow> string \<Rightarrow> string \<Rightarrow> progress" where
  "storeOriginals dbg personUrl garmentUrl =
     (if dbg then
        (fst initialProgress,
         (snd initialProgress)\<lparr>originalPersonImageDataUrl := Some personUrl,
                                originalGarmentImageDataUrl := Some garmentUrl\<rparr>)
      else initialProgress)"

text \<open>Step 1 after \<^verbatim>\<open>removeBackground\<close> has returned: the new person URL and progress.\<close>

definition afterPersonRemoval ::
  "bool \<Rightarrow> BackgroundRemovalResult \<Rightarrow> string \<Rightarrow> progress \<Rightarrow> string \<times> progress" where
  "afterPersonRemoval dbg res url st =
     (if BackgroundRemovalResult.success res \<and> imageDataUrl res \<noteq> [] then
        (imageDataUrl res,
         (fst st)\<lparr>personBackgroundRemoved := True\<rparr>,
         (if dbg then
            (snd st)\<lparr>personBackgroundRemoval := BackgroundRemovalResult.debug res,
                     personImageAfterBackgroundRemoval := Some (imageDataUrl res)\<rparr>
          else snd st))
      else
        (url,
         fst st,
         (if dbg \<and> BackgroundRemovalResult.debug res \<noteq> None then
            (snd st)\<lparr>personBackgroundRemoval := BackgroundRemovalResult.debug res\<rparr>
          else snd st)))"

text \<open>Step 2 after \<^verbatim>\<open>removeBackground\<close> has returned.\<close>

definition afterGarmentRemoval ::
  "bool \<Rightarrow> BackgroundRemovalResult \<Rightarrow> string \<Rightarrow> progress \<Rightarrow> string \<times> progress" where
  "afterGarmentRemoval dbg res url st =
     (if BackgroundRemovalResult.success res \<and> imageDataUrl res \<noteq> [] then
        (imageDataUrl res,
         (fst st)\<lparr>garmentBackgroundRemoved := True\<rparr>,
         (if dbg then
            (snd st)\<lparr>garmentBackgroundRemoval := BackgroundRemovalResult.debug res,
                     garmentImageAfterBackgroundRemoval := Some (imageDataUrl res)\<rparr>
          else snd st))
      else
        (url,
         fst st,
         (if dbg \<and> BackgroundRemovalResult.debug res \<noteq> None then
            (snd st)\<lparr>garmentBackgroundRemoval := BackgroundRemovalResult.debug res\<rparr>
          else snd st)))"

text \<open>Step 3 after \<^verbatim>\<open>getSegmentedGarment\<close> has returned.\<close>

definition afterSegmentation ::
  "bool \<Rightarrow> SegmentationResult \<Rightarrow> string \<Rightarrow> progress \<Rightarrow> string \<times> progress" where
  "afterSegmentation dbg res url st =
     (if SegmentationResult.success res then
        (SegmentationResult.segmentedImageDataUrl res,
         (fst st)\<lparr>garmentSegmented := True\<rparr>,
         (if dbg then
            (snd st)\<lparr>garmentSegmentation := SegmentationResult.debug res,
                     garmentImageAfterSegmentation :=
                       Some (SegmentationResult.segmentedImageDataUrl res)\<rparr>
          else snd st))
      else (url, st))"

text \<open>
  The \<^verbatim>\<open>try\<close> block from the two checks that follow step 3 to the \<^verbatim>\<open>return\<close>: the
  gate on the requested removals, the conversion to files, the final verification of
  both flags, the final debug fields.
\<close>

definition verifyAndConvert ::
  "browser \<Rightarrow> bool \<Rightarrow> bool \<Rightarrow> bool \<Rightarrow> string \<Rightarrow> string \<Rightarrow> progress \<Rightarrow>
   (File \<times> File \<times> string \<times> string) run" where
  "verifyAndConvert env removePerson removeGarment dbg personUrl garmentUrl st =
     (if removePerson \<and> \<not> personBackgroundRemoved (fst st) then
        (Inl (Error ''Person background removal failed. Cannot proceed with original image.''), st)
      else if removeGarment \<and> \<not> garmentBackgroundRemoved (fst st) then
        (Inl (Error ''Garment background removal failed. Cannot proceed with original image.''), st)
      else
        attempt (dataUrlToFile env personUrl ''processed-person-bg-removed.png'') st
          (\<lambda>processedPerson.
        attempt (dataUrlToFile env garmentUrl ''processed-garment-bg-removed.png'') st
          (\<lambda>processedGarment.
        if \<not> personBackgroundRemoved (fst st) then
          (Inl (Error ''CRITICAL: Person image background was NOT removed - cannot use original image!''), st)
        else if \<not> garmentBackgroundRemoved (fst st) then
          (Inl (Error ''CRITICAL: Garment image background was NOT removed - cannot use original image!''), st)
        else
          (Inr (processedPerson, processedGarment, personUrl, garmentUrl),
           fst st,
           (if dbg then
              (snd st)\<lparr>finalPersonImageDataUrl := Some personUrl,
                       finalGarmentImageDataUrl := Some garmentUrl\<rparr>
            else snd st)))))"

text \<open>The whole \<^verbatim>\<open>try\<close> block of \<^verbatim>\<open>preprocessImages\<close>.\<close>

definition preprocessTry ::
  "browser \<Rightarrow> File \<Rightarrow> File \<Rightarrow> bool \<Rightarrow> bool \<Rightarrow> bool \<Rightarrow> GarmentType \<Rightarrow> bool \<Rightarrow> bool \<Rightarrow>
   (File \<times> File \<times> string \<times> string) run" where
  "preprocessTry env personImageFile garmentImageFile removePerson removeGarment segment
       gType advanced dbg =
     attempt (fileToDataUrl env personImageFile) initialProgress (\<lambda>personUrl0.
     attempt (fileToDataUrl env garmentImageFile) initialProgress (\<lambda>garmentUrl0.
     let st1 = storeOriginals dbg personUrl0 garmentUrl0 in
     attempt (if removePerson
              then await (removeBackground env personImageFile dbg) (\<lambda>res.
                     Inr (afterPersonRemoval dbg res personUrl0 st1))
              else Inr (personUrl0, st1))
       st1 (\<lambda>(personUrl1, st2).
     attempt (if removeGarment
              then await (dataUrlToFile env garmentUrl0 ''garment.png'') (\<lambda>garmentFile.
                   await (removeBackground env garmentFile dbg) (\<lambda>res.
                     Inr (afterGarmentRemoval dbg res garmentUrl0 st2)))
              else Inr (garmentUrl0, st2))
       st2 (\<lambda>(garmentUrl2, st3).
     attempt (if segment
              then await (getSegmentedGarment env garmentUrl2 gType advanced dbg) (\<lambda>res.
                     Inr (afterSegmentation dbg res garmentUrl2 st3))
              else Inr (garmentUrl2, st3))
       st3 (\<lambda>(garmentUrl3, st4).
     verifyAndConvert env removePerson removeGarment dbg personUrl1 garmentUrl3 st4)))))"

text \<open>\<^verbatim>\<open>await fileToDataUrl(file).catch(() => '')\<close> in the \<^verbatim>\<open>catch\<close> block.\<close>

definition dataUrlOrEmpty :: "browser \<Rightarrow> File \<Rightarrow> string" where
  "dataUrlOrEmpty env f = (case fileToDataUrl env f of Inl e \<Rightarrow> [] | Inr url \<Rightarrow> url)"

definition preprocessImages ::
  "browser \<Rightarrow> File \<Rightarrow> File \<Rightarrow> PreprocessingOptions \<Rightarrow> PreprocessingResult promise" where
  "preprocessImages env personImageFile garmentImageFile options =
     (let removePerson = orDefault True (removePersonBackground options);
          removeGarment = orDefault True (removeGarmentBackground options);
          segment = orDefault True (segmentGarmentOption options);
          gType = orDefault CompleteOutfit (garmentType options);
          advanced = orDefault False (useAdvancedSegmentation options);
          dbg = orDefault False (includeDebug options)
      in case preprocessTry env personImageFile garmentImageFile removePerson removeGarment
                segment gType advanced dbg of
           (Inr (processedPerson, processedGarment, personUrl, garmentUrl), st) \<Rightarrow>
             Inr \<lparr>processedPersonImage = processedPerson,
                  processedGarmentImage = processedGarment,
                  personImageDataUrl = personUrl,
                  garmentImageDataUrl = garmentUrl,
                  success = True,
                  error = None,
                  steps = fst st,
                  debug = (if dbg then Some (snd st) else None)\<rparr>
         | (Inl e, st) \<Rightarrow>
             Inr \<lparr>processedPersonImage = personImageFile,
                  processedGarmentImage = garmentImageFile,
                  personImageDataUrl = dataUrlOrEmpty env personImageFile,
                  garmentImageDataUrl = dataUrlOrEmpty env garmentImageFile,
                  success = False,
                  error = Some (messageOr e ''Preprocessing failed''),
                  steps = fst st,
                  debug = (if dbg then Some (snd st) else None)\<rparr>)"

text \<open>The options of a caller that passes none, and of the page's call with debugging.\<close>

definition noOptions :: PreprocessingOptions where
  "noOptions =
     \<lparr>removePersonBackground = None, removeGarmentBackground = None,
      segmentGarmentOption = None, garmentType = None,
      useAdvancedSegmentation = None, includeDebug = None\<rparr>"

definition pageOptions :: "GarmentType \<Rightarrow> PreprocessingOptions" where
  "pageOptions gType =
     \<lparr>removePersonBackground = Some True, removeGarmentBackground = Some True,
      segmentGarmentOption = Some True, garmentType = Some gType,
      useAdvancedSegmentation = Some False, includeDebug = Some True\<rparr>"

section \<open>The aspect-ratio signal\<close>

lemma aspect_positive_height:
  assumes "0 < h"
  shows "detectGarmentTypeByAspectRatio w h =
           (if real w / real h > 1.2 then likelyTop
            else if real w / real h < 0.8 then likelyBottom
            else likelyFullBody)"
  using assms by (simp add: detectGarmentTypeByAspectRatio_def jsDivide_def jsLess_def)

lemma aspect_zero_height:
  "detectGarmentTypeByAspectRatio w 0 = (if w = 0 then likelyFullBody else likelyTop)"
  by (simp add: detectGarmentTypeByAspectRatio_def jsDivide_def jsLess_def)

text \<open>
  Claim C6. For every width and height the aspect-ratio classification is \<open>likelyTop\<close>
  when width/height exceeds 1.2, \<open>likelyBottom\<close> when it is below 0.8 and
  \<open>likelyFullBody\<close> otherwise, and a 300 by 600 image is \<open>likelyBottom\<close>. The quotient
  is the one JavaScript computes: for height 0 it is positive infinity (above 1.2) when
  the width is positive and NaN (neither above 1.2 nor below 0.8) when the width is 0.
\<close>

theorem aspect_ratio_classification:
  "(0 < h \<longrightarrow>
      detectGarmentTypeByAspectRatio w h =
        (if real w / real h > 1.2 then likelyTop
         else if real w / real h < 0.8 then likelyBottom
         else likelyFullBody))
   \<and> (h = 0 \<and> 0 < w \<longrightarrow> detectGarmentTypeByAspectRatio w h = likelyTop)
   \<and> (h = 0 \<and> w = 0 \<longrightarrow> detectGarmentTypeByAspectRatio w h = likelyFullBody)
   \<and> real 300 / real 600 = 0.5
   \<and> detectGarmentTypeByAspectRatio 300 600 = likelyBottom"
proof -
  have "detectGarmentTypeByAspectRatio 300 600 = likelyBottom"
    by (simp add: aspect_positive_height)
  then show ?thesis
    using aspect_positive_height [of h w] aspect_zero_height [of w] by auto
qed

theorem aspect_ratio_classification_witness:
  "(0::nat) < 400 \<and> real 800 / real 400 > 1.2
   \<and> detectGarmentTypeByAspectRatio 800 400 = likelyTop
   \<and> detectGarmentTypeByAspectRatio 500 500 = likelyFullBody
   \<and> detectGarmentTypeByAspectRatio 7 0 = likelyTop
   \<and> detectGarmentTypeByAspectRatio 0 0 = likelyFullBody"
proof -
  have a: "detectGarmentTypeByAspectRatio 800 400 = likelyTop"
    using aspect_ratio_classification [of 400 800] by simp
  have b: "detectGarmentTypeByAspectRatio 500 500 = likelyFullBody"
    using aspect_ratio_classification [of 500 500] by simp
  have c: "detectGarmentTypeByAspectRatio 7 0 = likelyTop"
    using aspect_ratio_classification [of 0 7] by simp
  have d: "detectGarmentTypeByAspectRatio 0 0 = likelyFullBody"
    using aspect_ratio_classification [of 0 0] by simp
  from a b c d show ?thesis by simp
qed


section \<open>The local fallback's pixel rule\<close>

declare removeLightPixels.simps [simp del]


















section \<open>The background-removal coordinator\<close>

lemma replicateBody_success: "replicateBody env f dbg ou = Inr r \<Longrightarrow> BackgroundRemovalResult.success r"
  by (auto simp: replicateBody_def await_def
      split: sum.splits apiResponse.splits if_splits option.splits prod.splits)

lemma replicate_resolves:
  "\<exists>r. removeBackgroundWithReplicate env f dbg = Inr r \<and>
       (BackgroundRemovalResult.success r \<or> (\<exists>ou e. r = replicateFailed dbg ou e))"
  by (auto simp: removeBackgroundWithReplicate_def await_def fileToDataUrl_def
      dest: replicateBody_success split: sum.splits)

lemma clientSide_resolves:
  "\<exists>r. removeBackgroundClientSide env f dbg = Inr r \<and>
       ((BackgroundRemovalResult.success r \<and> (dbg \<longrightarrow> (\<exists>d ws. BackgroundRemovalResult.debug r = Some d \<and> warnings d = Some ws)))
        \<or> (\<exists>ou e. r = clientSideFailed dbg ou e))"
  by (auto simp: removeBackgroundClientSide_def Let_def split: sum.splits)

lemma replicateFailed_fields:
  "\<not> BackgroundRemovalResult.success (replicateFailed dbg ou e)"
  "BackgroundRemovalResult.error (replicateFailed dbg ou e) = Some (messageOr e ''Replicate API failed'')"
  "BackgroundRemovalResult.debug (replicateFailed True ou e) =
     Some \<lparr>methodUsed = Replicate,
           BackgroundRemovalDebugInfo.originalDimensions = (0, 0),
           BackgroundRemovalDebugInfo.processedDimensions = (0, 0),
           BackgroundRemovalDebugInfo.originalImageDataUrl = ou,
           processedImageDataUrl = None,
           warnings = Some [messageOr e ''Replicate API failed'']\<rparr>"
  by (simp_all add: replicateFailed_def)

lemma clientSideFailed_fields:
  "\<not> BackgroundRemovalResult.success (clientSideFailed dbg ou e)"
  by (simp_all add: clientSideFailed_def)

lemma mergeWarnings_success:
  "BackgroundRemovalResult.success (mergeWarnings dbg rr fr) = BackgroundRemovalResult.success fr"
  by (simp add: mergeWarnings_def split: option.splits)

lemma removeBackground_eq:
  assumes "removeBackgroundWithReplicate env f dbg = Inr rr"
    and "removeBackgroundClientSide env f dbg = Inr fr"
  shows "removeBackground env f dbg =
           Inr (if BackgroundRemovalResult.success rr then rr else mergeWarnings dbg rr fr)"
  using assms by (simp add: removeBackground_def await_def)

text \<open>
  Claim C4. \<open>removeBackground\<close> never rejects: it always resolves with a result. The
  result is the remote one when the remote attempt succeeds; it has \<open>BackgroundRemovalResult.success = False\<close>
  exactly when the remote attempt and the local fallback both fail; and when debugging
  is on, the remote attempt failed and the fallback succeeded, the result succeeds and
  its warnings hold the remote failure message, alone and after \<open>Replicate failed: \<close>.
\<close>

theorem removeBackground_fallback_chain:
  "\<exists>r rr fr.
      removeBackground env f dbg = Inr r
      \<and> removeBackgroundWithReplicate env f dbg = Inr rr
      \<and> removeBackgroundClientSide env f dbg = Inr fr
      \<and> (\<not> BackgroundRemovalResult.success r \<longleftrightarrow> \<not> BackgroundRemovalResult.success rr \<and> \<not> BackgroundRemovalResult.success fr)
      \<and> (BackgroundRemovalResult.success rr \<longrightarrow> r = rr)
      \<and> (dbg \<and> \<not> BackgroundRemovalResult.success rr \<and> BackgroundRemovalResult.success fr \<longrightarrow>
            BackgroundRemovalResult.success r
            \<and> (\<exists>d ws m. BackgroundRemovalResult.debug r = Some d \<and> warnings d = Some ws \<and> BackgroundRemovalResult.error rr = Some m
                  \<and> m \<in> set ws \<and> (''Replicate failed: '' @ m) \<in> set ws))"
proof -
  obtain rr where rr: "removeBackgroundWithReplicate env f dbg = Inr rr"
    and rr_cases: "BackgroundRemovalResult.success rr \<or> (\<exists>ou e. rr = replicateFailed dbg ou e)"
    using replicate_resolves by blast
  obtain fr where fr: "removeBackgroundClientSide env f dbg = Inr fr"
    and fr_cases: "(BackgroundRemovalResult.success fr \<and> (dbg \<longrightarrow> (\<exists>d ws. BackgroundRemovalResult.debug fr = Some d \<and> warnings d = Some ws)))
        \<or> (\<exists>ou e. fr = clientSideFailed dbg ou e)"
    using clientSide_resolves by blast
  define r where "r = (if BackgroundRemovalResult.success rr then rr else mergeWarnings dbg rr fr)"
  have r: "removeBackground env f dbg = Inr r"
    unfolding r_def by (rule removeBackground_eq [OF rr fr])
  have fail: "\<not> BackgroundRemovalResult.success r \<longleftrightarrow> \<not> BackgroundRemovalResult.success rr \<and> \<not> BackgroundRemovalResult.success fr"
    by (simp add: r_def mergeWarnings_success)
  have same: "BackgroundRemovalResult.success rr \<longrightarrow> r = rr"
    by (simp add: r_def)
  have warn: "dbg \<and> \<not> BackgroundRemovalResult.success rr \<and> BackgroundRemovalResult.success fr \<longrightarrow>
            BackgroundRemovalResult.success r
            \<and> (\<exists>d ws m. BackgroundRemovalResult.debug r = Some d \<and> warnings d = Some ws \<and> BackgroundRemovalResult.error rr = Some m
                  \<and> m \<in> set ws \<and> (''Replicate failed: '' @ m) \<in> set ws)"
  proof
    assume a: "dbg \<and> \<not> BackgroundRemovalResult.success rr \<and> BackgroundRemovalResult.success fr"
    then obtain ou e where rf: "rr = replicateFailed True ou e"
      using rr_cases by auto
    from a fr_cases obtain fd fws where fd: "BackgroundRemovalResult.debug fr = Some fd" "warnings fd = Some fws"
      by (auto simp: clientSideFailed_fields)
    let ?m = "messageOr e ''Replicate API failed''"
    have "r = mergeWarnings True rr fr" using a by (simp add: r_def)
    then have "BackgroundRemovalResult.debug r = Some (fd\<lparr>warnings := Some ([?m] @ [''Replicate failed: '' @ ?m] @ fws)\<rparr>)"
      by (simp add: mergeWarnings_def rf replicateFailed_fields fd orEmpty_def inTemplate_def)
    moreover have "BackgroundRemovalResult.error rr = Some ?m" by (simp add: rf replicateFailed_fields)
    moreover have "BackgroundRemovalResult.success r" using a fail by blast
    ultimately show "BackgroundRemovalResult.success r
            \<and> (\<exists>d ws m. BackgroundRemovalResult.debug r = Some d \<and> warnings d = Some ws \<and> BackgroundRemovalResult.error rr = Some m
                  \<and> m \<in> set ws \<and> (''Replicate failed: '' @ m) \<in> set ws)"
      by simp
  qed
  from r rr fr fail same warn show ?thesis by blast
qed

lemma offline_replicate:
  "removeBackgroundWithReplicate offlineBrowser personFile True =
     Inr (replicateFailed True (Some ''data:original,person.jpg'') (Error ''Failed to fetch''))"
  by (simp add: removeBackgroundWithReplicate_def replicateBody_def await_def fileToDataUrl_def
      offlineBrowser_def scenarioBrowser_def personFile_def)

lemma offline_clientSide_success:
  "\<exists>fr. removeBackgroundClientSide offlineBrowser personFile True = Inr fr \<and> BackgroundRemovalResult.success fr"
  by (simp add: removeBackgroundClientSide_def Let_def loadImage_def imageToCanvas_def
      offlineBrowser_def scenarioBrowser_def)

theorem removeBackground_fallback_chain_witness:
  "\<exists>r d ws. removeBackground offlineBrowser personFile True = Inr r
      \<and> BackgroundRemovalResult.success r \<and> BackgroundRemovalResult.debug r = Some d \<and> warnings d = Some ws
      \<and> ''Failed to fetch'' \<in> set ws
      \<and> ''Replicate failed: Failed to fetch'' \<in> set ws"
proof -
  from removeBackground_fallback_chain [of offlineBrowser personFile True]
  obtain r rr fr where h:
    "removeBackground offlineBrowser personFile True = Inr r"
    "removeBackgroundWithReplicate offlineBrowser personFile True = Inr rr"
    "removeBackgroundClientSide offlineBrowser personFile True = Inr fr"
    "True \<and> \<not> BackgroundRemovalResult.success rr \<and> BackgroundRemovalResult.success fr \<longrightarrow>
            BackgroundRemovalResult.success r
            \<and> (\<exists>d ws m. BackgroundRemovalResult.debug r = Some d \<and> warnings d = Some ws \<and> BackgroundRemovalResult.error rr = Some m
                  \<and> m \<in> set ws \<and> (''Replicate failed: '' @ m) \<in> set ws)"
    by blast
  have rr: "rr = replicateFailed True (Some ''data:original,person.jpg'') (Error ''Failed to fetch'')"
    using h(2) offline_replicate by simp
  have "BackgroundRemovalResult.success fr" using h(3) offline_clientSide_success by auto
  moreover have "\<not> BackgroundRemovalResult.success rr" by (simp add: rr replicateFailed_fields)
  moreover have "BackgroundRemovalResult.error rr = Some ''Failed to fetch''"
    by (simp add: rr replicateFailed_fields messageOr_def)
  ultimately show ?thesis using h(1) h(4) by auto
qed

section \<open>Rounding to doubles\<close>



lemma tiesToEven_of_int: "tiesToEven (of_int n) = n"
  by (simp add: tiesToEven_def Let_def)



lemma exponent_unique:
  assumes "0 < x" "2 powi k \<le> x" "x < 2 powi (k + 1)"
  shows "\<lfloor>log 2 x\<rfloor> = k"
proof -
  have a: "(2::real) powr of_int j = 2 powi j" for j
    by (simp add: powr_real_of_int')
  have "of_int k \<le> log 2 x"
    using assms by (simp add: le_log_iff a)
  moreover have "log 2 x < of_int (k + 1)"
    using assms by (subst log_less_iff) (simp_all add: a del: of_int_add)
  ultimately show ?thesis by (simp add: floor_unique)
qed

lemma double_eval:
  assumes "2 powi k \<le> \<bar>x\<bar>" and "\<bar>x\<bar> < 2 powi (k + 1)"
  shows "double x = of_int (tiesToEven (x / 2 powi (k - 52))) * 2 powi (k - 52)"
proof -
  have "(0::real) < 2 powi k" by simp
  with assms(1) have pos: "0 < \<bar>x\<bar>" by linarith
  then have "\<lfloor>log 2 \<bar>x\<bar>\<rfloor> = k" using assms by (intro exponent_unique)
  moreover have "x \<noteq> 0" using pos by simp
  ultimately show ?thesis by (simp add: double_def Let_def)
qed





lemma double_zero: "double 0 = 0"
  by (simp add: double_def)


section \<open>The garment classifier and the segmenter\<close>

lemma sqrt_above_30: "30 < sqrt x \<longleftrightarrow> 900 < x"
proof -
  have "sqrt 900 = 30" by (rule real_sqrt_unique) simp_all
  then have "30 < sqrt x \<longleftrightarrow> sqrt 900 < sqrt x" by simp
  also have "\<dots> \<longleftrightarrow> 900 < x" by (rule real_sqrt_less_iff)
  finally show ?thesis .
qed

lemma getImageData_imageToCanvas:
  "imageToCanvas env img = Inr canvas \<Longrightarrow> getImageData canvas img = img"
  by (auto simp: imageToCanvas_def getImageData_def split: if_splits)

lemma imageToCanvas_context:
  "imageToCanvas env img = Inr canvas \<Longrightarrow>
   hasContext2d env (canvasWidth canvas) (canvasHeight canvas)"
  by (auto simp: imageToCanvas_def split: if_splits)

lemma imageToCanvas_ok:
  "hasContext2d env (width img) (height img) \<Longrightarrow> \<exists>canvas. imageToCanvas env img = Inr canvas"
  by (simp add: imageToCanvas_def)

lemma detect_analysed:
  assumes "loadImage env url = Inr img" and "hasContext2d env (width img) (height img)"
    and "t = Top \<or> t = Bottom"
  shows "detectSingleGarment env url t = Inr (scoreSingleGarment img t)"
proof -
  obtain canvas where c: "imageToCanvas env img = Inr canvas"
    using imageToCanvas_ok [OF assms(2)] by blast
  show ?thesis
    using assms(1,3) c getImageData_imageToCanvas [OF c] imageToCanvas_context [OF c]
    by (auto simp: detectSingleGarment_def await_def)
qed

lemma detect_failed:
  assumes "loadImage env url = Inl e \<or>
           (\<exists>img. loadImage env url = Inr img \<and> \<not> hasContext2d env (width img) (height img))"
    and "t = Top \<or> t = Bottom"
  shows "detectSingleGarment env url t =
           Inr \<lparr>isSingleGarment = False, confidence = 0, detectedType = None\<rparr>"
  using assms by (auto simp: detectSingleGarment_def await_def imageToCanvas_def)

lemma score_top:
  "confidence (scoreSingleGarment img Top) =
     double
       ((if detectGarmentTypeByAspectRatio (width img) (height img) = likelyTop
         then double 0.3 else 0)
        + (if topEdgeDensity (analyzeEdgeDensity img) > bottomEdgeDensity (analyzeEdgeDensity img)
           then min (double (double (topEdgeDensity (analyzeEdgeDensity img)
                                      - bottomEdgeDensity (analyzeEdgeDensity img)) * 2))
                    (double 0.7)
           else 0))"
  "SingleGarmentDetection.isSingleGarment (scoreSingleGarment img Top) =
     (confidence (scoreSingleGarment img Top) > double 0.6
      \<and> SingleGarmentDetection.detectedType (scoreSingleGarment img Top) = Some Top)"
  "SingleGarmentDetection.detectedType (scoreSingleGarment img Top) =
     (if confidence (scoreSingleGarment img Top) > double 0.6 then Some Top else None)"
  by (simp_all add: scoreSingleGarment_def Let_def)

lemma score_bottom:
  "confidence (scoreSingleGarment img Bottom) =
     double
       ((if detectGarmentTypeByAspectRatio (width img) (height img) = likelyBottom
         then double 0.3 else 0)
        + (if bottomEdgeDensity (analyzeEdgeDensity img) > topEdgeDensity (analyzeEdgeDensity img)
           then min (double (double (bottomEdgeDensity (analyzeEdgeDensity img)
                                      - topEdgeDensity (analyzeEdgeDensity img)) * 2))
                    (double 0.7)
           else 0))"
  "SingleGarmentDetection.isSingleGarment (scoreSingleGarment img Bottom) =
     (confidence (scoreSingleGarment img Bottom) > double 0.6
      \<and> SingleGarmentDetection.detectedType (scoreSingleGarment img Bottom) = Some Bottom)"
  "SingleGarmentDetection.detectedType (scoreSingleGarment img Bottom) =
     (if confidence (scoreSingleGarment img Bottom) > double 0.6 then Some Bottom else None)"
  by (simp_all add: scoreSingleGarment_def Let_def)

text \<open>The doubles that the scenarios meet, as fractions.\<close>

lemma double_one: "double 1 = 1"
  using double_eval [of 0 1] by (simp add: tiesToEven_def Let_def power_int_minus)

lemma double_3_10: "double (3 / 10) = 5404319552844595 / 18014398509481984"
  using double_eval [of "- 2" "3 / 10"] by (simp add: tiesToEven_def Let_def power_int_minus)

lemma double_6_10: "double (6 / 10) = 5404319552844595 / 9007199254740992"
  using double_eval [of "- 1" "6 / 10"] by (simp add: tiesToEven_def Let_def power_int_minus)

lemma double_7_10: "double (7 / 10) = 3152519739159347 / 4503599627370496"
  using double_eval [of "- 1" "7 / 10"] by (simp add: tiesToEven_def Let_def power_int_minus)

lemma double_difference:
  "double (1 - 3152519739159347 / 4503599627370496) = 1351079888211149 / 4503599627370496"
  using double_eval [of "- 2" "1 - 3152519739159347 / 4503599627370496"]
  by (simp add: tiesToEven_def Let_def power_int_minus)

lemma double_doubled:
  "double (1351079888211149 / 4503599627370496 * 2) = 1351079888211149 / 2251799813685248"
  using double_eval [of "- 1" "1351079888211149 / 4503599627370496 * 2"]
  by (simp add: tiesToEven_def Let_def power_int_minus)

lemma double_fixed_7_10:
  "double (3152519739159347 / 4503599627370496) = 3152519739159347 / 4503599627370496"
  using double_eval [of "- 1" "3152519739159347 / 4503599627370496"]
  by (simp add: tiesToEven_def Let_def power_int_minus)

lemma double_fixed_3_10:
  "double (5404319552844595 / 18014398509481984) = 5404319552844595 / 18014398509481984"
  using double_eval [of "- 2" "5404319552844595 / 18014398509481984"]
  by (simp add: tiesToEven_def Let_def power_int_minus)

lemma double_fixed_sum:
  "double (1351079888211149 / 2251799813685248) = 1351079888211149 / 2251799813685248"
  using double_eval [of "- 1" "1351079888211149 / 2251799813685248"]
  by (simp add: tiesToEven_def Let_def power_int_minus)

lemma double_3_5: "double (3 / 5) = 5404319552844595 / 9007199254740992"
  using double_eval [of "- 1" "3 / 5"] by (simp add: tiesToEven_def Let_def power_int_minus)

lemma double_fixed_difference:
  "double (1351079888211149 / 4503599627370496) = 1351079888211149 / 4503599627370496"
  using double_eval [of "- 2" "1351079888211149 / 4503599627370496"]
  by (simp add: tiesToEven_def Let_def power_int_minus)

lemma double_two: "double 2 = 2"
  using double_eval [of 1 2] by (simp add: tiesToEven_def Let_def power_int_minus)

lemma rows_3x4: "[Suc 0..<3] = [Suc 0, 2]" and cols_3x4: "[Suc 0..<2] = [Suc 0]"
  by (simp_all add: upt_rec)


lemma topHeavy_density:
  "analyzeEdgeDensity topHeavyImage = \<lparr>topEdgeDensity = 1, bottomEdgeDensity = 0\<rparr>"
  by (simp add: analyzeEdgeDensity_def countEdges_def countPixel_def isEdge_def gradient_def
      absDiff_def topHeavyImage_def whitePixel_def blackPixel_def Let_def sqrt_above_30
      rows_3x4 cols_3x4 double_zero double_one)

lemma rows_7x6: "[Suc 0..<5] = [Suc 0, 2, 3, 4]" and cols_7x6: "[Suc 0..<6] = [Suc 0, 2, 3, 4, 5]"
  by (simp_all add: upt_rec)

lemma striped_counts:
  "countEdges stripedImage =
     \<lparr>topEdges = 10, bottomEdges = 7, topPixels = 10, bottomPixels = 10\<rparr>"
  by (simp add: countEdges_def countPixel_def isEdge_def gradient_def
      absDiff_def stripedImage_def whitePixel_def blackPixel_def Let_def sqrt_above_30
      rows_7x6 cols_7x6)

lemma striped_density:
  "analyzeEdgeDensity stripedImage =
     \<lparr>topEdgeDensity = 1, bottomEdgeDensity = 3152519739159347 / 4503599627370496\<rparr>"
  by (simp add: analyzeEdgeDensity_def striped_counts double_one double_7_10)

lemma showing_loads:
  "loadImage (showing img) url = Inr img" "hasContext2d (showing img) w h"
  by (simp_all add: showing_def offlineBrowser_def scenarioBrowser_def loadImage_def)

lemma withoutCanvas_loads:
  "loadImage (withoutCanvas img) url = Inr img" "\<not> hasContext2d (withoutCanvas img) w h"
  by (simp_all add: withoutCanvas_def brokenBrowser_def scenarioBrowser_def loadImage_def)

lemma topHeavy_score:
  "confidence (scoreSingleGarment topHeavyImage Top) = 3152519739159347 / 4503599627370496"
proof -
  have cls: "detectGarmentTypeByAspectRatio (width topHeavyImage) (height topHeavyImage)
               = likelyBottom"
    by (simp add: topHeavyImage_def detectGarmentTypeByAspectRatio_def jsDivide_def jsLess_def)
  show ?thesis
    by (simp add: score_top(1) cls topHeavy_density double_one double_two double_7_10
        double_fixed_7_10)
qed

text \<open>
  Claim C5, as stated, fails: the top-heavy image loads, its aspect-ratio class and edge
  densities give the formula the value 0.7, but without a drawing context the classifier
  returns confidence 0 and \<open>isSingleGarment = False\<close>.
\<close>

theorem detectSingleGarment_failure_counterexample:
  "loadImage (withoutCanvas topHeavyImage) ''data:x'' = Inr topHeavyImage
   \<and> detectSingleGarment (withoutCanvas topHeavyImage) ''data:x'' Top =
        Inr \<lparr>isSingleGarment = False, confidence = 0, detectedType = None\<rparr>
   \<and> detectGarmentTypeByAspectRatio (width topHeavyImage) (height topHeavyImage) = likelyBottom
   \<and> analyzeEdgeDensity topHeavyImage = \<lparr>topEdgeDensity = 1, bottomEdgeDensity = 0\<rparr>
   \<and> double (0 + min (double (double (1 - 0) * 2)) (double 0.7))
        = 3152519739159347 / 4503599627370496"
proof -
  have cls: "detectGarmentTypeByAspectRatio (width topHeavyImage) (height topHeavyImage)
               = likelyBottom"
    by (simp add: topHeavyImage_def detectGarmentTypeByAspectRatio_def jsDivide_def jsLess_def)
  have failed: "detectSingleGarment (withoutCanvas topHeavyImage) ''data:x'' Top =
        Inr \<lparr>isSingleGarment = False, confidence = 0, detectedType = None\<rparr>"
    by (rule detect_failed) (simp_all add: withoutCanvas_loads)
  have formula: "double (0 + min (double (double (1 - 0) * 2)) (double 0.7))
        = 3152519739159347 / 4503599627370496"
    by (simp add: double_one double_two double_7_10 double_fixed_7_10)
  show ?thesis
    using cls failed formula topHeavy_density by (simp add: withoutCanvas_loads)
qed

text \<open>
  Claim C5, amended. For the declared types \<open>FullBody\<close> and \<open>CompleteOutfit\<close> the
  classifier returns confidence 1 and \<open>isSingleGarment = True\<close> whatever the browser does
  with the image. For the declared types \<open>Top\<close> and \<open>Bottom\<close>, when the image loads with a
  positive width and height and a drawing context is available, the confidence is the
  stated sum in the arithmetic of doubles: 0.3 (when the aspect-ratio class is
  \<open>likelyTop\<close>, for \<open>Bottom\<close> \<open>likelyBottom\<close>) plus, when the declared half's edge density
  exceeds the other, twice their difference capped at 0.7, each constant and each
  operation rounded to a double; the detected type is the declared one exactly when the
  confidence exceeds the double 0.6, and \<open>isSingleGarment\<close> holds exactly then. When the
  image does not load or no drawing context is available, the classifier returns
  confidence 0 and \<open>isSingleGarment = False\<close>.
\<close>

theorem detectSingleGarment_combination_rule:
  "(t = FullBody \<or> t = CompleteOutfit \<longrightarrow>
      detectSingleGarment env url t =
        Inr \<lparr>isSingleGarment = True, confidence = 1, detectedType = Some FullBody\<rparr>)
   \<and> (loadImage env url = Inr img \<and> hasContext2d env (width img) (height img)
        \<and> 0 < width img \<and> 0 < height img \<longrightarrow>
        (\<exists>r. detectSingleGarment env url Top = Inr r
           \<and> confidence r =
               double
                 ((if detectGarmentTypeByAspectRatio (width img) (height img) = likelyTop
                   then double 0.3 else 0)
                  + (if topEdgeDensity (analyzeEdgeDensity img)
                         > bottomEdgeDensity (analyzeEdgeDensity img)
                     then min (double (double (topEdgeDensity (analyzeEdgeDensity img)
                                        - bottomEdgeDensity (analyzeEdgeDensity img)) * 2))
                              (double 0.7)
                     else 0))
           \<and> SingleGarmentDetection.detectedType r =
               (if confidence r > double 0.6 then Some Top else None)
           \<and> SingleGarmentDetection.isSingleGarment r =
               (confidence r > double 0.6
                \<and> SingleGarmentDetection.detectedType r = Some Top))
        \<and> (\<exists>r. detectSingleGarment env url Bottom = Inr r
           \<and> confidence r =
               double
                 ((if detectGarmentTypeByAspectRatio (width img) (height img) = likelyBottom
                   then double 0.3 else 0)
                  + (if bottomEdgeDensity (analyzeEdgeDensity img)
                         > topEdgeDensity (analyzeEdgeDensity img)
                     then min (double (double (bottomEdgeDensity (analyzeEdgeDensity img)
                                        - topEdgeDensity (analyzeEdgeDensity img)) * 2))
                              (double 0.7)
                     else 0))
           \<and> SingleGarmentDetection.detectedType r =
               (if confidence r > double 0.6 then Some Bottom else None)
           \<and> SingleGarmentDetection.isSingleGarment r =
               (confidence r > double 0.6
                \<and> SingleGarmentDetection.detectedType r = Some Bottom)))
   \<and> ((t = Top \<or> t = Bottom)
        \<and> (loadImage env url = Inl e
             \<or> (\<exists>i. loadImage env url = Inr i \<and> \<not> hasContext2d env (width i) (height i)))
        \<longrightarrow> detectSingleGarment env url t =
              Inr \<lparr>isSingleGarment = False, confidence = 0, detectedType = None\<rparr>)"
proof -
  have failed: "(t = Top \<or> t = Bottom)
        \<and> (loadImage env url = Inl e
             \<or> (\<exists>i. loadImage env url = Inr i \<and> \<not> hasContext2d env (width i) (height i)))
        \<longrightarrow> detectSingleGarment env url t =
              Inr \<lparr>isSingleGarment = False, confidence = 0, detectedType = None\<rparr>"
    using detect_failed [of env url e t] by blast
  have short: "t = FullBody \<or> t = CompleteOutfit \<longrightarrow>
      detectSingleGarment env url t =
        Inr \<lparr>isSingleGarment = True, confidence = 1, detectedType = Some FullBody\<rparr>"
    by (auto simp: detectSingleGarment_def)
  have analysed: "detectSingleGarment env url Top = Inr (scoreSingleGarment img Top)
      \<and> detectSingleGarment env url Bottom = Inr (scoreSingleGarment img Bottom)"
    if "loadImage env url = Inr img" "hasContext2d env (width img) (height img)"
    using detect_analysed [OF that] by simp
  show ?thesis
    using short analysed score_top [of img] score_bottom [of img] failed by auto
qed

text \<open>
  The witness is the striped image: its densities are the doubles 1 and 0.7, the
  difference rounds to 0.30000000000000004, and the confidence 0.6000000000000001 is
  above the double 0.6. Without a drawing context the same image gets confidence 0.
\<close>

theorem detectSingleGarment_combination_rule_witness:
  "loadImage (showing stripedImage) ''data:x'' = Inr stripedImage
   \<and> hasContext2d (showing stripedImage) (width stripedImage) (height stripedImage)
   \<and> detectSingleGarment (showing stripedImage) ''data:x'' CompleteOutfit =
        Inr \<lparr>isSingleGarment = True, confidence = 1, detectedType = Some FullBody\<rparr>
   \<and> detectSingleGarment (showing stripedImage) ''data:x'' Top =
        Inr \<lparr>isSingleGarment = True,
             confidence = 1351079888211149 / 2251799813685248,
             detectedType = Some Top\<rparr>
   \<and> (1351079888211149 / 2251799813685248 :: real) > double 0.6
   \<and> loadImage (withoutCanvas stripedImage) ''data:x'' = Inr stripedImage
   \<and> detectSingleGarment (withoutCanvas stripedImage) ''data:x'' Bottom =
        Inr \<lparr>isSingleGarment = False, confidence = 0, detectedType = None\<rparr>"
proof -
  note t = detectSingleGarment_combination_rule
             [of CompleteOutfit "showing stripedImage" "''data:x''" stripedImage]
  have failed: "detectSingleGarment (withoutCanvas stripedImage) ''data:x'' Bottom =
        Inr \<lparr>isSingleGarment = False, confidence = 0, detectedType = None\<rparr>"
    using detectSingleGarment_combination_rule
            [of Bottom "withoutCanvas stripedImage" "''data:x''" stripedImage]
    by (simp add: withoutCanvas_loads)
  have dims: "width stripedImage = 7" "height stripedImage = 6"
    by (simp_all add: stripedImage_def)
  have cls: "detectGarmentTypeByAspectRatio 7 6 = likelyFullBody"
    by (simp add: detectGarmentTypeByAspectRatio_def jsDivide_def jsLess_def)
  from t have short:
    "detectSingleGarment (showing stripedImage) ''data:x'' CompleteOutfit =
        Inr \<lparr>isSingleGarment = True, confidence = 1, detectedType = Some FullBody\<rparr>"
    by simp
  have pre: "loadImage (showing stripedImage) ''data:x'' = Inr stripedImage
      \<and> hasContext2d (showing stripedImage) (width stripedImage) (height stripedImage)
      \<and> 0 < width stripedImage \<and> 0 < height stripedImage"
    by (simp add: showing_loads dims)
  from t pre obtain r where r:
      "detectSingleGarment (showing stripedImage) ''data:x'' Top = Inr r"
      "confidence r =
         double
           ((if detectGarmentTypeByAspectRatio (width stripedImage) (height stripedImage)
                = likelyTop
             then double 0.3 else 0)
            + (if topEdgeDensity (analyzeEdgeDensity stripedImage)
                   > bottomEdgeDensity (analyzeEdgeDensity stripedImage)
               then min (double (double (topEdgeDensity (analyzeEdgeDensity stripedImage)
                                  - bottomEdgeDensity (analyzeEdgeDensity stripedImage)) * 2))
                        (double 0.7)
               else 0))"
      "SingleGarmentDetection.detectedType r =
         (if confidence r > double 0.6 then Some Top else None)"
      "SingleGarmentDetection.isSingleGarment r =
         (confidence r > double 0.6 \<and> SingleGarmentDetection.detectedType r = Some Top)"
    by blast
  have conf: "confidence r = 1351079888211149 / 2251799813685248"
    unfolding r(2)
    by (simp add: dims cls striped_density double_7_10 double_fixed_difference
        double_fixed_sum)
  have above: "(1351079888211149 / 2251799813685248 :: real) > double 0.6"
    by (simp add: double_3_5)
  have "r = \<lparr>isSingleGarment = True,
             confidence = 1351079888211149 / 2251799813685248,
             detectedType = Some Top\<rparr>"
    using r(3,4) conf above by (cases r) simp
  with r(1) short above failed show ?thesis
    by (simp add: showing_loads withoutCanvas_loads)
qed





text \<open>
  Two density pairs whose differences are 0.3 and 0.30000000000000004: the doubles 0.3
  and 0, and the doubles 1 and 0.7. The edge term of the first is the double 0.6, the
  edge term of the second is 0.6000000000000001.
\<close>

lemma edge_term_examples:
  "min (double (double (double (3 / 10) - 0) * 2)) (double (7 / 10)) = double (6 / 10)"
  "min (double (double (1 - double (7 / 10)) * 2)) (double (7 / 10))
     = 1351079888211149 / 2251799813685248"
  "double (6 / 10) < 1351079888211149 / 2251799813685248"
proof -
  have a: "double (5404319552844595 / 18014398509481984 * 2)
             = 5404319552844595 / 9007199254740992"
    using double_eval [of "- 1" "5404319552844595 / 18014398509481984 * 2"]
    by (simp add: tiesToEven_def Let_def power_int_minus)
  show "min (double (double (double (3 / 10) - 0) * 2)) (double (7 / 10)) = double (6 / 10)"
    using a by (simp add: double_3_10 double_fixed_3_10 double_7_10 double_3_5)
  show "min (double (double (1 - double (7 / 10)) * 2)) (double (7 / 10))
          = 1351079888211149 / 2251799813685248"
    by (simp add: double_7_10 double_fixed_difference double_fixed_sum)
  show "double (6 / 10) < 1351079888211149 / 2251799813685248"
    by (simp add: double_3_5)
qed

lemma segmentGarment_passthrough:
  assumes "loadImage env url = Inr img" and "hasContext2d env (width img) (height img)"
  shows "\<exists>r. segmentGarment env url t dbg = Inr r
           \<and> SegmentationResult.success r
           \<and> SegmentationResult.segmentedImageDataUrl r = url
           \<and> SegmentationResult.error r = None"
proof -
  obtain canvas where c: "imageToCanvas env img = Inr canvas"
    using imageToCanvas_ok [OF assms(2)] by blast
  show ?thesis
    using assms(1) c imageToCanvas_context [OF c]
    by (cases t) (simp_all add: segmentGarment_def segmentGarmentBody_def await_def Let_def)
qed

lemma segmentGarment_failed:
  assumes "loadImage env url = Inl e \<or>
           (\<exists>img. loadImage env url = Inr img \<and> \<not> hasContext2d env (width img) (height img))"
  shows "\<exists>r. segmentGarment env url t dbg = Inr r
           \<and> \<not> SegmentationResult.success r
           \<and> SegmentationResult.segmentedImageDataUrl r = []"
  using assms
  by (auto simp: segmentGarment_def segmentGarmentBody_def await_def imageToCanvas_def)

lemma segmentGarment_resolves: "\<exists>r. segmentGarment env url t dbg = Inr r"
  by (simp add: segmentGarment_def split: sum.splits)

text \<open>
  Claim C8, as stated, fails: the image below loads, but the browser gives no drawing
  context, and segmenting it as \<open>FullBody\<close> returns \<open>success = False\<close> with an empty
  data URL.
\<close>

theorem full_image_segmentation_counterexample:
  "loadImage (withoutCanvas topHeavyImage) ''data:dress'' = Inr topHeavyImage
   \<and> segmentGarment (withoutCanvas topHeavyImage) ''data:dress'' FullBody False =
        Inr \<lparr>segmentedImageDataUrl = [],
             success = False,
             error = Some ''Could not get canvas context'',
             debug = None\<rparr>
   \<and> getSegmentedGarment (withoutCanvas topHeavyImage) ''data:dress'' FullBody False False =
        segmentGarment (withoutCanvas topHeavyImage) ''data:dress'' FullBody False"
  by (simp add: withoutCanvas_loads segmentGarment_def segmentGarmentBody_def await_def
      imageToCanvas_def getSegmentedGarment_def messageOr_def)

text \<open>
  Claim C8, amended. For the declared type \<open>FullBody\<close> or \<open>CompleteOutfit\<close>: when the
  input data URL loads as an image of positive width and height and a drawing context is
  available, segmenting succeeds and hands back the input data URL itself, so the output
  decodes to the very pixels of the input; when the data URL does not load, or no
  drawing context is available, segmenting returns \<open>success = False\<close> and an empty data
  URL.
\<close>

theorem full_image_segmentation_identity:
  assumes "t = FullBody \<or> t = CompleteOutfit"
  shows "(loadImage env url = Inr img \<and> hasContext2d env (width img) (height img)
          \<and> 0 < width img \<and> 0 < height img \<longrightarrow>
            (\<exists>r. segmentGarment env url t dbg = Inr r
               \<and> getSegmentedGarment env url t adv dbg = Inr r
               \<and> SegmentationResult.success r
               \<and> SegmentationResult.error r = None
               \<and> SegmentationResult.segmentedImageDataUrl r = url
               \<and> loadImage env (SegmentationResult.segmentedImageDataUrl r) = Inr img))
       \<and> (loadImage env url = Inl e
           \<or> (\<exists>i. loadImage env url = Inr i \<and> \<not> hasContext2d env (width i) (height i)) \<longrightarrow>
            (\<exists>r. segmentGarment env url t dbg = Inr r
               \<and> getSegmentedGarment env url t adv dbg = Inr r
               \<and> \<not> SegmentationResult.success r
               \<and> SegmentationResult.segmentedImageDataUrl r = []))"
proof (intro conjI impI)
  assume a: "loadImage env url = Inr img \<and> hasContext2d env (width img) (height img)
          \<and> 0 < width img \<and> 0 < height img"
  then have l: "loadImage env url = Inr img" and c: "hasContext2d env (width img) (height img)"
    by simp_all
  show "\<exists>r. segmentGarment env url t dbg = Inr r
               \<and> getSegmentedGarment env url t adv dbg = Inr r
               \<and> SegmentationResult.success r
               \<and> SegmentationResult.error r = None
               \<and> SegmentationResult.segmentedImageDataUrl r = url
               \<and> loadImage env (SegmentationResult.segmentedImageDataUrl r) = Inr img"
    using segmentGarment_passthrough [OF l c, of t dbg] l
    by (auto simp: getSegmentedGarment_def)
next
  assume "loadImage env url = Inl e
           \<or> (\<exists>i. loadImage env url = Inr i \<and> \<not> hasContext2d env (width i) (height i))"
  from segmentGarment_failed [OF this, of t dbg]
  show "\<exists>r. segmentGarment env url t dbg = Inr r
               \<and> getSegmentedGarment env url t adv dbg = Inr r
               \<and> \<not> SegmentationResult.success r
               \<and> SegmentationResult.segmentedImageDataUrl r = []"
    by (auto simp: getSegmentedGarment_def)
qed

theorem full_image_segmentation_identity_witness:
  "(\<exists>r. segmentGarment (showing topHeavyImage) ''data:dress'' FullBody True = Inr r
      \<and> SegmentationResult.success r
      \<and> SegmentationResult.segmentedImageDataUrl r = ''data:dress''
      \<and> loadImage (showing topHeavyImage) (SegmentationResult.segmentedImageDataUrl r)
          = Inr topHeavyImage)
   \<and> (\<exists>r. segmentGarment (withoutCanvas topHeavyImage) ''data:dress'' CompleteOutfit True = Inr r
      \<and> \<not> SegmentationResult.success r
      \<and> SegmentationResult.segmentedImageDataUrl r = [])
   \<and> 0 < width topHeavyImage \<and> 0 < height topHeavyImage"
proof -
  have dims: "0 < width topHeavyImage" "0 < height topHeavyImage"
    by (simp_all add: topHeavyImage_def)
  have first: "\<exists>r. segmentGarment (showing topHeavyImage) ''data:dress'' FullBody True = Inr r
      \<and> SegmentationResult.success r
      \<and> SegmentationResult.segmentedImageDataUrl r = ''data:dress''
      \<and> loadImage (showing topHeavyImage) (SegmentationResult.segmentedImageDataUrl r)
          = Inr topHeavyImage"
    using full_image_segmentation_identity
            [of FullBody "showing topHeavyImage" "''data:dress''" topHeavyImage True False]
          dims
    by (auto simp: showing_loads)
  have second: "\<exists>r. segmentGarment (withoutCanvas topHeavyImage) ''data:dress'' CompleteOutfit True
                      = Inr r
      \<and> \<not> SegmentationResult.success r
      \<and> SegmentationResult.segmentedImageDataUrl r = []"
    using full_image_segmentation_identity
            [of CompleteOutfit "withoutCanvas topHeavyImage" "''data:dress''" topHeavyImage
                True False]
    by (auto simp: withoutCanvas_loads)
  from first second dims show ?thesis by blast
qed

section \<open>The preprocessing pipeline: how a run ends\<close>

lemma afterPersonRemoval_flags:
  "personBackgroundRemoved (fst (snd (afterPersonRemoval dbg res url st))) =
     (BackgroundRemovalResult.success res \<and> imageDataUrl res \<noteq> [] \<or> personBackgroundRemoved (fst st))"
  "garmentBackgroundRemoved (fst (snd (afterPersonRemoval dbg res url st))) =
     garmentBackgroundRemoved (fst st)"
  "garmentSegmented (fst (snd (afterPersonRemoval dbg res url st))) = garmentSegmented (fst st)"
  "fst (afterPersonRemoval dbg res url st) =
     (if BackgroundRemovalResult.success res \<and> imageDataUrl res \<noteq> [] then imageDataUrl res else url)"
  by (auto simp: afterPersonRemoval_def)

lemma afterGarmentRemoval_flags:
  "garmentBackgroundRemoved (fst (snd (afterGarmentRemoval dbg res url st))) =
     (BackgroundRemovalResult.success res \<and> imageDataUrl res \<noteq> [] \<or> garmentBackgroundRemoved (fst st))"
  "personBackgroundRemoved (fst (snd (afterGarmentRemoval dbg res url st))) =
     personBackgroundRemoved (fst st)"
  "garmentSegmented (fst (snd (afterGarmentRemoval dbg res url st))) = garmentSegmented (fst st)"
  "fst (afterGarmentRemoval dbg res url st) =
     (if BackgroundRemovalResult.success res \<and> imageDataUrl res \<noteq> [] then imageDataUrl res else url)"
  by (auto simp: afterGarmentRemoval_def)

lemma afterSegmentation_flags:
  "garmentSegmented (fst (snd (afterSegmentation dbg res url st))) =
     (SegmentationResult.success res \<or> garmentSegmented (fst st))"
  "personBackgroundRemoved (fst (snd (afterSegmentation dbg res url st))) =
     personBackgroundRemoved (fst st)"
  "garmentBackgroundRemoved (fst (snd (afterSegmentation dbg res url st))) =
     garmentBackgroundRemoved (fst st)"
  "fst (afterSegmentation dbg res url st) =
     (if SegmentationResult.success res then SegmentationResult.segmentedImageDataUrl res else url)"
  by (auto simp: afterSegmentation_def)

lemma verifyAndConvert_ok:
  assumes "verifyAndConvert env rp rg dbg purl gurl st = (Inr (pf, gf, purl', gurl'), st')"
  shows "personBackgroundRemoved (fst st) \<and> garmentBackgroundRemoved (fst st)
         \<and> fst st' = fst st \<and> purl' = purl \<and> gurl' = gurl
         \<and> dataUrlToFile env purl ''processed-person-bg-removed.png'' = Inr pf
         \<and> dataUrlToFile env gurl ''processed-garment-bg-removed.png'' = Inr gf"
  using assms
  by (auto simp: verifyAndConvert_def attempt_def split: if_splits sum.splits)

lemma verifyAndConvert_gate:
  assumes "\<not> personBackgroundRemoved (fst st) \<or> \<not> garmentBackgroundRemoved (fst st)"
  shows "\<exists>e. verifyAndConvert env rp rg dbg purl gurl st = (Inl e, st)"
  using assms
  by (auto simp: verifyAndConvert_def attempt_def split: sum.splits)

lemma verifyAndConvert_steps:
  "fst (snd (verifyAndConvert env rp rg dbg purl gurl st)) = fst st"
  by (auto simp: verifyAndConvert_def attempt_def split: sum.splits)

lemma storeOriginals_flags:
  "\<not> personBackgroundRemoved (fst (storeOriginals dbg u v))"
  "\<not> garmentBackgroundRemoved (fst (storeOriginals dbg u v))"
  "\<not> garmentSegmented (fst (storeOriginals dbg u v))"
  by (simp_all add: storeOriginals_def initialProgress_def)

lemma preprocessTry_trace:
  assumes "preprocessTry env p g rp rg sg gt adv dbg = (Inr payload, st)"
  obtains personUrl0 garmentUrl0 personUrl1 st2 garmentUrl2 st3 garmentUrl3 st4 where
    "fileToDataUrl env p = Inr personUrl0"
    "fileToDataUrl env g = Inr garmentUrl0"
    "(if rp
      then await (removeBackground env p dbg) (\<lambda>res.
             Inr (afterPersonRemoval dbg res personUrl0
                    (storeOriginals dbg personUrl0 garmentUrl0)))
      else Inr (personUrl0, storeOriginals dbg personUrl0 garmentUrl0))
     = Inr (personUrl1, st2)"
    "(if rg
      then await (dataUrlToFile env garmentUrl0 ''garment.png'') (\<lambda>garmentFile.
           await (removeBackground env garmentFile dbg) (\<lambda>res.
             Inr (afterGarmentRemoval dbg res garmentUrl0 st2)))
      else Inr (garmentUrl0, st2))
     = Inr (garmentUrl2, st3)"
    "(if sg
      then await (getSegmentedGarment env garmentUrl2 gt adv dbg) (\<lambda>res.
             Inr (afterSegmentation dbg res garmentUrl2 st3))
      else Inr (garmentUrl2, st3))
     = Inr (garmentUrl3, st4)"
    "verifyAndConvert env rp rg dbg personUrl1 garmentUrl3 st4 = (Inr payload, st)"
  using assms
  unfolding preprocessTry_def attempt_def Let_def
  by (simp split: sum.splits prod.splits)

lemma person_step:
  assumes "(if rp
      then await (removeBackground env p dbg) (\<lambda>res. Inr (afterPersonRemoval dbg res url0 st1))
      else Inr (url0, st1)) = Inr (url1, st2)"
    and "\<not> personBackgroundRemoved (fst st1)"
    and "personBackgroundRemoved (fst st2)"
  shows "rp \<and> (\<exists>res. removeBackground env p dbg = Inr res
           \<and> BackgroundRemovalResult.success res \<and> imageDataUrl res \<noteq> []
           \<and> url1 = imageDataUrl res)"
proof (cases rp)
  case False
  with assms show ?thesis by simp
next
  case True
  with assms(1) obtain res where res: "removeBackground env p dbg = Inr res"
      and eq: "afterPersonRemoval dbg res url0 st1 = (url1, st2)"
    by (auto simp: await_def split: sum.splits)
  have "personBackgroundRemoved (fst (snd (afterPersonRemoval dbg res url0 st1)))"
    using eq assms(3) by simp
  then have ok: "BackgroundRemovalResult.success res \<and> imageDataUrl res \<noteq> []"
    using assms(2) by (simp add: afterPersonRemoval_flags)
  have "url1 = fst (afterPersonRemoval dbg res url0 st1)" using eq by simp
  then have "url1 = imageDataUrl res" using ok by (simp add: afterPersonRemoval_flags)
  with True res ok show ?thesis by blast
qed

lemma person_step_flags:
  assumes "(if rp
      then await (removeBackground env p dbg) (\<lambda>res. Inr (afterPersonRemoval dbg res url0 st1))
      else Inr (url0, st1)) = Inr (url1, st2)"
  shows "garmentBackgroundRemoved (fst st2) = garmentBackgroundRemoved (fst st1)"
    and "garmentSegmented (fst st2) = garmentSegmented (fst st1)"
  using assms
  by (auto simp: await_def afterPersonRemoval_def split: sum.splits if_splits)

lemma garment_step:
  assumes "(if rg
      then await (dataUrlToFile env url0 ''garment.png'') (\<lambda>garmentFile.
           await (removeBackground env garmentFile dbg) (\<lambda>res.
             Inr (afterGarmentRemoval dbg res url0 st2)))
      else Inr (url0, st2)) = Inr (url2, st3)"
    and "\<not> garmentBackgroundRemoved (fst st2)"
    and "garmentBackgroundRemoved (fst st3)"
  shows "rg \<and> (\<exists>garmentFile res. dataUrlToFile env url0 ''garment.png'' = Inr garmentFile
           \<and> removeBackground env garmentFile dbg = Inr res
           \<and> BackgroundRemovalResult.success res \<and> imageDataUrl res \<noteq> []
           \<and> url2 = imageDataUrl res)"
proof (cases rg)
  case False
  with assms show ?thesis by simp
next
  case True
  with assms(1) obtain garmentFile res where
      gf: "dataUrlToFile env url0 ''garment.png'' = Inr garmentFile"
      and res: "removeBackground env garmentFile dbg = Inr res"
      and eq: "afterGarmentRemoval dbg res url0 st2 = (url2, st3)"
    by (auto simp: await_def split: sum.splits)
  have "garmentBackgroundRemoved (fst (snd (afterGarmentRemoval dbg res url0 st2)))"
    using eq assms(3) by simp
  then have ok: "BackgroundRemovalResult.success res \<and> imageDataUrl res \<noteq> []"
    using assms(2) by (simp add: afterGarmentRemoval_flags)
  have "url2 = fst (afterGarmentRemoval dbg res url0 st2)" using eq by simp
  then have "url2 = imageDataUrl res" using ok by (simp add: afterGarmentRemoval_flags)
  with True gf res ok show ?thesis by blast
qed

lemma garment_step_flags:
  assumes "(if rg
      then await (dataUrlToFile env url0 ''garment.png'') (\<lambda>garmentFile.
           await (removeBackground env garmentFile dbg) (\<lambda>res.
             Inr (afterGarmentRemoval dbg res url0 st2)))
      else Inr (url0, st2)) = Inr (url2, st3)"
  shows "personBackgroundRemoved (fst st3) = personBackgroundRemoved (fst st2)"
    and "garmentSegmented (fst st3) = garmentSegmented (fst st2)"
  using assms
  by (auto simp: await_def afterGarmentRemoval_def split: sum.splits if_splits)

lemma segment_step:
  assumes "(if sg
      then await (getSegmentedGarment env url2 gt adv dbg) (\<lambda>res.
             Inr (afterSegmentation dbg res url2 st3))
      else Inr (url2, st3)) = Inr (url3, st4)"
    and "\<not> garmentSegmented (fst st3)"
  shows "personBackgroundRemoved (fst st4) = personBackgroundRemoved (fst st3)"
    and "garmentBackgroundRemoved (fst st4) = garmentBackgroundRemoved (fst st3)"
    and "if sg
         then \<exists>res. getSegmentedGarment env url2 gt adv dbg = Inr res
                \<and> garmentSegmented (fst st4) = SegmentationResult.success res
                \<and> url3 = (if SegmentationResult.success res
                           then SegmentationResult.segmentedImageDataUrl res else url2)
         else \<not> garmentSegmented (fst st4) \<and> url3 = url2"
  using assms
  by (auto simp: await_def afterSegmentation_def split: sum.splits if_splits)

lemma preprocessTry_success:
  assumes "preprocessTry env p g rp rg sg gt adv dbg = (Inr (pf, gf, purl, gurl), st)"
  shows "rp \<and> rg \<and> personBackgroundRemoved (fst st) \<and> garmentBackgroundRemoved (fst st)"
    and "\<exists>pres. removeBackground env p dbg = Inr pres
           \<and> BackgroundRemovalResult.success pres \<and> imageDataUrl pres \<noteq> []
           \<and> purl = imageDataUrl pres"
    and "\<exists>u gfile gres. fileToDataUrl env g = Inr u
           \<and> dataUrlToFile env u ''garment.png'' = Inr gfile
           \<and> removeBackground env gfile dbg = Inr gres
           \<and> BackgroundRemovalResult.success gres \<and> imageDataUrl gres \<noteq> []
           \<and> (if sg
               then \<exists>sr. getSegmentedGarment env (imageDataUrl gres) gt adv dbg = Inr sr
                      \<and> garmentSegmented (fst st) = SegmentationResult.success sr
                      \<and> gurl = (if SegmentationResult.success sr
                                 then SegmentationResult.segmentedImageDataUrl sr
                                 else imageDataUrl gres)
               else \<not> garmentSegmented (fst st) \<and> gurl = imageDataUrl gres)"
    and "dataUrlToFile env purl ''processed-person-bg-removed.png'' = Inr pf"
    and "dataUrlToFile env gurl ''processed-garment-bg-removed.png'' = Inr gf"
proof -
  from assms obtain personUrl0 garmentUrl0 personUrl1 st2 garmentUrl2 st3 garmentUrl3 st4 where
    f1: "fileToDataUrl env p = Inr personUrl0" and
    f2: "fileToDataUrl env g = Inr garmentUrl0" and
    s1: "(if rp
      then await (removeBackground env p dbg) (\<lambda>res.
             Inr (afterPersonRemoval dbg res personUrl0
                    (storeOriginals dbg personUrl0 garmentUrl0)))
      else Inr (personUrl0, storeOriginals dbg personUrl0 garmentUrl0))
     = Inr (personUrl1, st2)" and
    s2: "(if rg
      then await (dataUrlToFile env garmentUrl0 ''garment.png'') (\<lambda>garmentFile.
           await (removeBackground env garmentFile dbg) (\<lambda>res.
             Inr (afterGarmentRemoval dbg res garmentUrl0 st2)))
      else Inr (garmentUrl0, st2))
     = Inr (garmentUrl2, st3)" and
    s3: "(if sg
      then await (getSegmentedGarment env garmentUrl2 gt adv dbg) (\<lambda>res.
             Inr (afterSegmentation dbg res garmentUrl2 st3))
      else Inr (garmentUrl2, st3))
     = Inr (garmentUrl3, st4)" and
    v: "verifyAndConvert env rp rg dbg personUrl1 garmentUrl3 st4 = (Inr (pf, gf, purl, gurl), st)"
    by (rule preprocessTry_trace)
  note ok = verifyAndConvert_ok [OF v]
  have seg0: "\<not> garmentSegmented (fst st3)"
    using garment_step_flags(2) [OF s2] person_step_flags(2) [OF s1]
    by (simp add: storeOriginals_flags)
  note seg = segment_step [OF s3 seg0]
  have p4: "personBackgroundRemoved (fst st4)" and g4: "garmentBackgroundRemoved (fst st4)"
    using ok by simp_all
  have p2: "personBackgroundRemoved (fst st2)"
    using p4 seg(1) garment_step_flags(1) [OF s2] by simp
  have g3: "garmentBackgroundRemoved (fst st3)"
    using g4 seg(2) by simp
  have g2: "\<not> garmentBackgroundRemoved (fst st2)"
    using person_step_flags(1) [OF s1] by (simp add: storeOriginals_flags)
  note person = person_step [OF s1 storeOriginals_flags(1) p2]
  note garment = garment_step [OF s2 g2 g3]
  show "rp \<and> rg \<and> personBackgroundRemoved (fst st) \<and> garmentBackgroundRemoved (fst st)"
    using person garment ok by simp
  show "\<exists>pres. removeBackground env p dbg = Inr pres
           \<and> BackgroundRemovalResult.success pres \<and> imageDataUrl pres \<noteq> []
           \<and> purl = imageDataUrl pres"
    using person ok by auto
  show "dataUrlToFile env purl ''processed-person-bg-removed.png'' = Inr pf"
    using ok by simp
  show "dataUrlToFile env gurl ''processed-garment-bg-removed.png'' = Inr gf"
    using ok by simp
  from garment obtain gfile gres where
      gf: "dataUrlToFile env garmentUrl0 ''garment.png'' = Inr gfile"
      and gres: "removeBackground env gfile dbg = Inr gres"
        "BackgroundRemovalResult.success gres" "imageDataUrl gres \<noteq> []"
      and u2: "garmentUrl2 = imageDataUrl gres"
    by blast
  have st_eq: "fst st = fst st4" and gurl_eq: "gurl = garmentUrl3" using ok by simp_all
  have "if sg
        then \<exists>sr. getSegmentedGarment env (imageDataUrl gres) gt adv dbg = Inr sr
               \<and> garmentSegmented (fst st) = SegmentationResult.success sr
               \<and> gurl = (if SegmentationResult.success sr
                          then SegmentationResult.segmentedImageDataUrl sr
                          else imageDataUrl gres)
        else \<not> garmentSegmented (fst st) \<and> gurl = imageDataUrl gres"
    using seg(3) unfolding st_eq gurl_eq u2 .
  with f2 gf gres show "\<exists>u gfile gres. fileToDataUrl env g = Inr u
           \<and> dataUrlToFile env u ''garment.png'' = Inr gfile
           \<and> removeBackground env gfile dbg = Inr gres
           \<and> BackgroundRemovalResult.success gres \<and> imageDataUrl gres \<noteq> []
           \<and> (if sg
               then \<exists>sr. getSegmentedGarment env (imageDataUrl gres) gt adv dbg = Inr sr
                      \<and> garmentSegmented (fst st) = SegmentationResult.success sr
                      \<and> gurl = (if SegmentationResult.success sr
                                 then SegmentationResult.segmentedImageDataUrl sr
                                 else imageDataUrl gres)
               else \<not> garmentSegmented (fst st) \<and> gurl = imageDataUrl gres)"
    by blast
qed

lemma messageOr_nonempty: "fallback \<noteq> [] \<Longrightarrow> messageOr e fallback \<noteq> []"
  by (simp add: messageOr_def split: thrown.splits)

text \<open>The two ways \<open>preprocessImages\<close> returns: from the end of the try block or from the catch block.\<close>

lemma preprocessImages_returns:
  assumes "rp = orDefault True (removePersonBackground options)"
    and "rg = orDefault True (removeGarmentBackground options)"
    and "sg = orDefault True (segmentGarmentOption options)"
    and "gt = orDefault CompleteOutfit (garmentType options)"
    and "adv = orDefault False (useAdvancedSegmentation options)"
    and "dbg = orDefault False (includeDebug options)"
  shows "\<exists>r. preprocessImages env p g options = Inr r \<and>
      ((success r \<and> error r = None \<and>
        (\<exists>st. preprocessTry env p g rp rg sg gt adv dbg =
                 (Inr (processedPersonImage r, processedGarmentImage r,
                       personImageDataUrl r, garmentImageDataUrl r), st)
               \<and> steps r = fst st))
       \<or> (\<not> success r \<and> processedPersonImage r = p \<and> processedGarmentImage r = g
           \<and> personImageDataUrl r = dataUrlOrEmpty env p
           \<and> garmentImageDataUrl r = dataUrlOrEmpty env g
           \<and> (\<exists>e st. preprocessTry env p g rp rg sg gt adv dbg = (Inl e, st)
                 \<and> steps r = fst st
                 \<and> error r = Some (messageOr e ''Preprocessing failed''))))"
proof -
  obtain outcome st where run: "preprocessTry env p g rp rg sg gt adv dbg = (outcome, st)"
    by (cases "preprocessTry env p g rp rg sg gt adv dbg") auto
  show ?thesis
  proof (cases outcome)
    case (Inl e)
    with run show ?thesis
      unfolding preprocessImages_def Let_def assms [symmetric] by simp
  next
    case (Inr payload)
    obtain pf gf pu gu where "payload = (pf, gf, pu, gu)" by (cases payload) auto
    with Inr run show ?thesis
      unfolding preprocessImages_def Let_def assms [symmetric] by simp
  qed
qed



section \<open>The preprocessing pipeline: the verification gate\<close>

lemma offline_removeBackground:
  "\<exists>r. removeBackground offlineBrowser f True = Inr r
     \<and> BackgroundRemovalResult.success r \<and> imageDataUrl r = ''data:image/png,canvas''"
  by (simp add: removeBackground_def removeBackgroundWithReplicate_def replicateBody_def
      removeBackgroundClientSide_def await_def fileToDataUrl_def loadImage_def
      imageToCanvas_def canvasToDataUrl_def clientSideCanvas_def replicateFailed_def
      mergeWarnings_def Let_def offlineBrowser_def scenarioBrowser_def)

lemma offline_dataUrlToFile:
  "dataUrlToFile offlineBrowser url name =
     Inr (newFile pngBlob name ''image/png'')"
  by (simp add: dataUrlToFile_def await_def offlineBrowser_def scenarioBrowser_def pngBlob_def
      newFile_def)

lemma offline_segment:
  "\<exists>r. getSegmentedGarment offlineBrowser url t adv dbg = Inr r
     \<and> SegmentationResult.success r \<and> SegmentationResult.segmentedImageDataUrl r = url"
proof -
  have "loadImage offlineBrowser url = Inr twoPixels"
    "hasContext2d offlineBrowser (width twoPixels) (height twoPixels)"
    by (simp_all add: offlineBrowser_def scenarioBrowser_def loadImage_def)
  from segmentGarment_passthrough [OF this, of t dbg] show ?thesis
    by (auto simp: getSegmentedGarment_def)
qed

lemma offline_try:
  "\<exists>st. preprocessTry offlineBrowser personFile garmentFile True True True t False True =
     (Inr (newFile pngBlob ''processed-person-bg-removed.png'' ''image/png'',
           newFile pngBlob ''processed-garment-bg-removed.png'' ''image/png'',
           ''data:image/png,canvas'', ''data:image/png,canvas''), st)
     \<and> personBackgroundRemoved (fst st) \<and> garmentBackgroundRemoved (fst st)
     \<and> garmentSegmented (fst st)"
proof -
  obtain pr where pr: "removeBackground offlineBrowser personFile True = Inr pr"
      "BackgroundRemovalResult.success pr" "imageDataUrl pr = ''data:image/png,canvas''"
    using offline_removeBackground by blast
  obtain gr where gr:
      "removeBackground offlineBrowser (newFile pngBlob ''garment.png'' ''image/png'') True = Inr gr"
      "BackgroundRemovalResult.success gr" "imageDataUrl gr = ''data:image/png,canvas''"
    using offline_removeBackground by blast
  obtain sr where sr:
      "getSegmentedGarment offlineBrowser ''data:image/png,canvas'' t False True = Inr sr"
      "SegmentationResult.success sr"
      "SegmentationResult.segmentedImageDataUrl sr = ''data:image/png,canvas''"
    using offline_segment by blast
  have rd: "fileToDataUrl offlineBrowser f = Inr (''data:original,'' @ fileName f)" for f
    by (simp add: fileToDataUrl_def offlineBrowser_def scenarioBrowser_def)
  show ?thesis
    by (simp add: preprocessTry_def attempt_def await_def rd pr gr sr offline_dataUrlToFile
        afterPersonRemoval_def afterGarmentRemoval_def afterSegmentation_def
        verifyAndConvert_def storeOriginals_def initialProgress_def Let_def)
qed

lemma offline_page_run:
  "\<exists>r. preprocessImages offlineBrowser personFile garmentFile (pageOptions t) = Inr r
     \<and> success r \<and> personBackgroundRemoved (steps r) \<and> garmentBackgroundRemoved (steps r)
     \<and> garmentSegmented (steps r)
     \<and> personImageDataUrl r = ''data:image/png,canvas''"
proof -
  obtain st where st:
    "preprocessTry offlineBrowser personFile garmentFile True True True t False True =
     (Inr (newFile pngBlob ''processed-person-bg-removed.png'' ''image/png'',
           newFile pngBlob ''processed-garment-bg-removed.png'' ''image/png'',
           ''data:image/png,canvas'', ''data:image/png,canvas''), st)"
    "personBackgroundRemoved (fst st)" "garmentBackgroundRemoved (fst st)"
    "garmentSegmented (fst st)"
    using offline_try by blast
  then show ?thesis
    by (simp add: preprocessImages_def pageOptions_def orDefault_def Let_def)
qed

lemma noContext_segment:
  "\<exists>r. getSegmentedGarment (scenarioBrowser reply False) url t adv dbg = Inr r
     \<and> \<not> SegmentationResult.success r"
proof -
  have "\<exists>img. loadImage (scenarioBrowser reply False) url = Inr img
          \<and> \<not> hasContext2d (scenarioBrowser reply False) (width img) (height img)"
    by (simp add: scenarioBrowser_def loadImage_def)
  then show ?thesis
    using segmentGarment_failed [of "scenarioBrowser reply False" url _ t dbg]
    by (auto simp: getSegmentedGarment_def)
qed

lemma scenario_dataUrlToFile:
  "dataUrlToFile (scenarioBrowser reply ctx) url name = Inr (newFile pngBlob name ''image/png'')"
  by (simp add: dataUrlToFile_def await_def scenarioBrowser_def pngBlob_def newFile_def)

lemma scenario_fileToDataUrl:
  "fileToDataUrl (scenarioBrowser reply ctx) f = Inr (''data:original,'' @ fileName f)"
  by (simp add: fileToDataUrl_def scenarioBrowser_def)

lemma remoteOnly_removeBackground:
  "\<exists>r. removeBackground remoteOnlyBrowser f False = Inr r
     \<and> BackgroundRemovalResult.success r \<and> imageDataUrl r = ''blob:object''"
  by (simp add: removeBackground_def removeBackgroundWithReplicate_def replicateBody_def
      await_def loadImage_def remoteOnlyBrowser_def scenarioBrowser_def pngBlob_def)

lemma remoteOnly_run:
  "\<exists>r. preprocessImages remoteOnlyBrowser personFile garmentFile noOptions = Inr r
     \<and> success r \<and> personBackgroundRemoved (steps r) \<and> garmentBackgroundRemoved (steps r)
     \<and> \<not> garmentSegmented (steps r)
     \<and> garmentImageDataUrl r = ''blob:object''"
proof -
  obtain pr where pr: "removeBackground remoteOnlyBrowser personFile False = Inr pr"
      "BackgroundRemovalResult.success pr" "imageDataUrl pr = ''blob:object''"
    using remoteOnly_removeBackground by blast
  obtain gr where gr:
      "removeBackground remoteOnlyBrowser (newFile pngBlob ''garment.png'' ''image/png'') False = Inr gr"
      "BackgroundRemovalResult.success gr" "imageDataUrl gr = ''blob:object''"
    using remoteOnly_removeBackground by blast
  obtain sr where sr:
      "getSegmentedGarment remoteOnlyBrowser ''blob:object'' CompleteOutfit False False = Inr sr"
      "\<not> SegmentationResult.success sr"
    using noContext_segment unfolding remoteOnlyBrowser_def by blast
  have rd: "fileToDataUrl remoteOnlyBrowser f = Inr (''data:original,'' @ fileName f)" for f
    by (simp add: remoteOnlyBrowser_def scenario_fileToDataUrl)
  have tf: "dataUrlToFile remoteOnlyBrowser url name = Inr (newFile pngBlob name ''image/png'')"
    for url name
    by (simp add: remoteOnlyBrowser_def scenario_dataUrlToFile)
  show ?thesis
    by (simp add: preprocessImages_def noOptions_def orDefault_def
        preprocessTry_def attempt_def await_def rd pr gr sr tf
        afterPersonRemoval_def afterGarmentRemoval_def afterSegmentation_def
        verifyAndConvert_def storeOriginals_def initialProgress_def Let_def)
qed

lemma broken_removeBackground:
  "\<exists>r. removeBackground brokenBrowser f False = Inr r \<and> \<not> BackgroundRemovalResult.success r"
  by (simp add: removeBackground_def removeBackgroundWithReplicate_def replicateBody_def
      removeBackgroundClientSide_def await_def loadImage_def imageToCanvas_def
      replicateFailed_def clientSideFailed_def mergeWarnings_def Let_def
      brokenBrowser_def scenarioBrowser_def)

lemma broken_run:
  "\<exists>r. preprocessImages brokenBrowser personFile garmentFile noOptions = Inr r
     \<and> \<not> success r \<and> \<not> personBackgroundRemoved (steps r)
     \<and> error r = Some ''Person background removal failed. Cannot proceed with original image.''
     \<and> processedPersonImage r = personFile \<and> processedGarmentImage r = garmentFile
     \<and> personImageDataUrl r = ''data:original,person.jpg''"
proof -
  obtain pr where pr: "removeBackground brokenBrowser personFile False = Inr pr"
      "\<not> BackgroundRemovalResult.success pr"
    using broken_removeBackground by blast
  obtain gr where gr:
      "removeBackground brokenBrowser (newFile pngBlob ''garment.png'' ''image/png'') False = Inr gr"
      "\<not> BackgroundRemovalResult.success gr"
    using broken_removeBackground by blast
  obtain sr where sr:
      "getSegmentedGarment brokenBrowser ''data:original,garment.jpg'' CompleteOutfit False False = Inr sr"
      "\<not> SegmentationResult.success sr"
    using noContext_segment unfolding brokenBrowser_def by blast
  have rd: "fileToDataUrl brokenBrowser personFile = Inr ''data:original,person.jpg''"
      "fileToDataUrl brokenBrowser garmentFile = Inr ''data:original,garment.jpg''"
    by (simp_all add: brokenBrowser_def scenario_fileToDataUrl personFile_def garmentFile_def)
  have tf: "dataUrlToFile brokenBrowser url name = Inr (newFile pngBlob name ''image/png'')"
    for url name
    by (simp add: brokenBrowser_def scenario_dataUrlToFile)
  show ?thesis
    by (simp add: preprocessImages_def noOptions_def orDefault_def
        preprocessTry_def attempt_def await_def rd pr gr sr tf
        afterPersonRemoval_def afterGarmentRemoval_def afterSegmentation_def
        verifyAndConvert_def storeOriginals_def initialProgress_def Let_def
        dataUrlOrEmpty_def messageOr_def)
qed

text \<open>
  Claim C1. Every call of \<open>preprocessImages\<close> resolves with a bundle. If the bundle has
  \<open>success = True\<close>, then for each background removal that was requested the step flag
  is true; if a removal was requested and its flag is false, the bundle has
  \<open>success = False\<close> and an error message. A successful bundle never carries the
  unprocessed original: its person image is the file made from the data URL that a
  successful \<open>removeBackground\<close> returned, and its garment image is the file made from
  the data URL returned by a successful \<open>removeBackground\<close> or by a successful
  segmentation of that.
\<close>

theorem verification_gate:
  "\<exists>r. preprocessImages env p g options = Inr r
     \<and> (success r \<longrightarrow>
           (orDefault True (removePersonBackground options)
              \<longrightarrow> personBackgroundRemoved (steps r))
         \<and> (orDefault True (removeGarmentBackground options)
              \<longrightarrow> garmentBackgroundRemoved (steps r)))
     \<and> ((orDefault True (removePersonBackground options)
            \<and> \<not> personBackgroundRemoved (steps r))
          \<or> (orDefault True (removeGarmentBackground options)
            \<and> \<not> garmentBackgroundRemoved (steps r))
         \<longrightarrow> \<not> success r \<and> (\<exists>m. error r = Some m \<and> m \<noteq> []))
     \<and> (success r \<longrightarrow>
           (\<exists>pres. removeBackground env p (orDefault False (includeDebug options)) = Inr pres
              \<and> BackgroundRemovalResult.success pres \<and> imageDataUrl pres \<noteq> []
              \<and> personImageDataUrl r = imageDataUrl pres
              \<and> dataUrlToFile env (imageDataUrl pres) ''processed-person-bg-removed.png''
                  = Inr (processedPersonImage r))
         \<and> (\<exists>u gfile gres. fileToDataUrl env g = Inr u
              \<and> dataUrlToFile env u ''garment.png'' = Inr gfile
              \<and> removeBackground env gfile (orDefault False (includeDebug options)) = Inr gres
              \<and> BackgroundRemovalResult.success gres \<and> imageDataUrl gres \<noteq> []
              \<and> (garmentImageDataUrl r = imageDataUrl gres
                  \<or> (\<exists>sr. getSegmentedGarment env (imageDataUrl gres)
                              (orDefault CompleteOutfit (garmentType options))
                              (orDefault False (useAdvancedSegmentation options))
                              (orDefault False (includeDebug options)) = Inr sr
                         \<and> SegmentationResult.success sr
                         \<and> garmentImageDataUrl r = SegmentationResult.segmentedImageDataUrl sr))
              \<and> dataUrlToFile env (garmentImageDataUrl r) ''processed-garment-bg-removed.png''
                  = Inr (processedGarmentImage r)))"
proof -
  define rp where "rp = orDefault True (removePersonBackground options)"
  define rg where "rg = orDefault True (removeGarmentBackground options)"
  define sg where "sg = orDefault True (segmentGarmentOption options)"
  define gt where "gt = orDefault CompleteOutfit (garmentType options)"
  define adv where "adv = orDefault False (useAdvancedSegmentation options)"
  define dbg where "dbg = orDefault False (includeDebug options)"
  from preprocessImages_returns [OF rp_def rg_def sg_def gt_def adv_def dbg_def, of env p g]
  obtain r where r: "preprocessImages env p g options = Inr r"
    and cases: "(success r \<and> error r = None \<and>
        (\<exists>st. preprocessTry env p g rp rg sg gt adv dbg =
                 (Inr (processedPersonImage r, processedGarmentImage r,
                       personImageDataUrl r, garmentImageDataUrl r), st)
               \<and> steps r = fst st))
       \<or> (\<not> success r \<and> processedPersonImage r = p \<and> processedGarmentImage r = g
           \<and> personImageDataUrl r = dataUrlOrEmpty env p
           \<and> garmentImageDataUrl r = dataUrlOrEmpty env g
           \<and> (\<exists>e st. preprocessTry env p g rp rg sg gt adv dbg = (Inl e, st)
                 \<and> steps r = fst st
                 \<and> error r = Some (messageOr e ''Preprocessing failed'')))"
    by blast
  show ?thesis
  proof (cases "success r")
    case False
    with cases have "\<exists>m. error r = Some m \<and> m \<noteq> []"
      by (auto simp: messageOr_nonempty)
    with r False show ?thesis by auto
  next
    case True
    with cases obtain st where run: "preprocessTry env p g rp rg sg gt adv dbg =
                 (Inr (processedPersonImage r, processedGarmentImage r,
                       personImageDataUrl r, garmentImageDataUrl r), st)"
        and st: "steps r = fst st"
      by blast
    note t = preprocessTry_success [OF run]
    have flags: "personBackgroundRemoved (steps r) \<and> garmentBackgroundRemoved (steps r)"
      using t(1) st by simp
    from t(2) obtain pres where pres: "removeBackground env p dbg = Inr pres"
        "BackgroundRemovalResult.success pres" "imageDataUrl pres \<noteq> []"
        "personImageDataUrl r = imageDataUrl pres"
      by blast
    have pfile: "dataUrlToFile env (imageDataUrl pres) ''processed-person-bg-removed.png''
                  = Inr (processedPersonImage r)"
      using t(4) pres(4) by simp
    from t(3) obtain u gfile gres where g: "fileToDataUrl env g = Inr u"
        "dataUrlToFile env u ''garment.png'' = Inr gfile"
        "removeBackground env gfile dbg = Inr gres"
        "BackgroundRemovalResult.success gres" "imageDataUrl gres \<noteq> []"
      and seg: "if sg
               then \<exists>sr. getSegmentedGarment env (imageDataUrl gres) gt adv dbg = Inr sr
                      \<and> garmentSegmented (fst st) = SegmentationResult.success sr
                      \<and> garmentImageDataUrl r = (if SegmentationResult.success sr
                                 then SegmentationResult.segmentedImageDataUrl sr
                                 else imageDataUrl gres)
               else \<not> garmentSegmented (fst st) \<and> garmentImageDataUrl r = imageDataUrl gres"
      by blast
    have gurl: "garmentImageDataUrl r = imageDataUrl gres
                  \<or> (\<exists>sr. getSegmentedGarment env (imageDataUrl gres) gt adv dbg = Inr sr
                         \<and> SegmentationResult.success sr
                         \<and> garmentImageDataUrl r = SegmentationResult.segmentedImageDataUrl sr)"
      using seg by (cases sg) (auto split: if_splits)
    show ?thesis
      using r True flags pres pfile g gurl t(5)
      unfolding gt_def adv_def dbg_def by blast
  qed
qed

theorem verification_gate_witness:
  "(\<exists>r. preprocessImages offlineBrowser personFile garmentFile (pageOptions Top) = Inr r
      \<and> success r
      \<and> orDefault True (removePersonBackground (pageOptions Top))
      \<and> personBackgroundRemoved (steps r) \<and> garmentBackgroundRemoved (steps r)
      \<and> (\<exists>pres. removeBackground offlineBrowser personFile True = Inr pres
            \<and> BackgroundRemovalResult.success pres
            \<and> personImageDataUrl r = imageDataUrl pres))
   \<and> (\<exists>r. preprocessImages brokenBrowser personFile garmentFile noOptions = Inr r
      \<and> orDefault True (removePersonBackground noOptions)
      \<and> \<not> personBackgroundRemoved (steps r)
      \<and> \<not> success r \<and> (\<exists>m. error r = Some m \<and> m \<noteq> []))"
proof -
  have dbg: "orDefault False (includeDebug (pageOptions Top))"
    "orDefault True (removePersonBackground (pageOptions Top))"
    "orDefault True (removePersonBackground noOptions)"
    by (simp_all add: pageOptions_def noOptions_def orDefault_def)
  from verification_gate [of offlineBrowser personFile garmentFile "pageOptions Top"]
    offline_page_run [of Top]
  have a: "\<exists>r. preprocessImages offlineBrowser personFile garmentFile (pageOptions Top) = Inr r
      \<and> success r
      \<and> personBackgroundRemoved (steps r) \<and> garmentBackgroundRemoved (steps r)
      \<and> (\<exists>pres. removeBackground offlineBrowser personFile True = Inr pres
            \<and> BackgroundRemovalResult.success pres
            \<and> personImageDataUrl r = imageDataUrl pres)"
    using dbg(1) by auto
  from verification_gate [of brokenBrowser personFile garmentFile noOptions] broken_run
  have b: "\<exists>r. preprocessImages brokenBrowser personFile garmentFile noOptions = Inr r
      \<and> \<not> personBackgroundRemoved (steps r)
      \<and> \<not> success r \<and> (\<exists>m. error r = Some m \<and> m \<noteq> [])"
    using dbg(3) by auto
  from a b dbg show ?thesis by blast
qed

text \<open>
  Claim C2, as stated, fails: with the remote service answering and no drawing context
  available, the default call (segmentation requested) returns \<open>success = True\<close> with
  \<open>garmentSegmented = False\<close>. A failed segmentation is logged and the run continues.
\<close>

theorem segmentation_flag_counterexample:
  "\<exists>r. preprocessImages remoteOnlyBrowser personFile garmentFile noOptions = Inr r
     \<and> success r
     \<and> orDefault True (segmentGarmentOption noOptions)
     \<and> \<not> garmentSegmented (steps r)"
  using remoteOnly_run by (auto simp: noOptions_def orDefault_def)

text \<open>
  Claim C2, amended. If the returned bundle has \<open>success = True\<close>, then both
  background-removal flags are true (and both removals were requested), and
  \<open>garmentSegmented\<close> is true exactly when segmentation was requested and
  \<open>getSegmentedGarment\<close>, run on the background-removed garment, reported success.
\<close>

theorem success_implies_removal_flags:
  assumes "preprocessImages env p g options = Inr r" and "success r"
  shows "personBackgroundRemoved (steps r) \<and> garmentBackgroundRemoved (steps r)
     \<and> orDefault True (removePersonBackground options)
     \<and> orDefault True (removeGarmentBackground options)
     \<and> (\<exists>u gfile gres. fileToDataUrl env g = Inr u
           \<and> dataUrlToFile env u ''garment.png'' = Inr gfile
           \<and> removeBackground env gfile (orDefault False (includeDebug options)) = Inr gres
           \<and> BackgroundRemovalResult.success gres
           \<and> garmentSegmented (steps r) =
               (orDefault True (segmentGarmentOption options)
                \<and> (\<exists>sr. getSegmentedGarment env (imageDataUrl gres)
                            (orDefault CompleteOutfit (garmentType options))
                            (orDefault False (useAdvancedSegmentation options))
                            (orDefault False (includeDebug options)) = Inr sr
                       \<and> SegmentationResult.success sr)))"
proof -
  define rp where "rp = orDefault True (removePersonBackground options)"
  define rg where "rg = orDefault True (removeGarmentBackground options)"
  define sg where "sg = orDefault True (segmentGarmentOption options)"
  define gt where "gt = orDefault CompleteOutfit (garmentType options)"
  define adv where "adv = orDefault False (useAdvancedSegmentation options)"
  define dbg where "dbg = orDefault False (includeDebug options)"
  from preprocessImages_returns [OF rp_def rg_def sg_def gt_def adv_def dbg_def, of env p g]
    assms
  obtain st where run: "preprocessTry env p g rp rg sg gt adv dbg =
                 (Inr (processedPersonImage r, processedGarmentImage r,
                       personImageDataUrl r, garmentImageDataUrl r), st)"
      and st: "steps r = fst st"
    by auto
  note t = preprocessTry_success [OF run]
  from t(3) obtain u gfile gres where g: "fileToDataUrl env g = Inr u"
      "dataUrlToFile env u ''garment.png'' = Inr gfile"
      "removeBackground env gfile dbg = Inr gres"
      "BackgroundRemovalResult.success gres"
    and seg: "if sg
             then \<exists>sr. getSegmentedGarment env (imageDataUrl gres) gt adv dbg = Inr sr
                    \<and> garmentSegmented (fst st) = SegmentationResult.success sr
                    \<and> garmentImageDataUrl r = (if SegmentationResult.success sr
                               then SegmentationResult.segmentedImageDataUrl sr
                               else imageDataUrl gres)
             else \<not> garmentSegmented (fst st) \<and> garmentImageDataUrl r = imageDataUrl gres"
    by blast
  have "garmentSegmented (steps r) =
          (sg \<and> (\<exists>sr. getSegmentedGarment env (imageDataUrl gres) gt adv dbg = Inr sr
                    \<and> SegmentationResult.success sr))"
    using seg unfolding st by (cases sg) auto
  with g t(1) st show ?thesis
    unfolding rp_def rg_def sg_def gt_def adv_def dbg_def by auto
qed

theorem success_implies_removal_flags_witness:
  "\<exists>r. preprocessImages offlineBrowser personFile garmentFile (pageOptions Bottom) = Inr r
     \<and> success r
     \<and> personBackgroundRemoved (steps r) \<and> garmentBackgroundRemoved (steps r)
     \<and> garmentSegmented (steps r)"
proof -
  from offline_page_run [of Bottom] obtain r where
      r: "preprocessImages offlineBrowser personFile garmentFile (pageOptions Bottom) = Inr r"
      "success r" "garmentSegmented (steps r)"
    by blast
  from success_implies_removal_flags [OF r(1,2)]
  have "personBackgroundRemoved (steps r) \<and> garmentBackgroundRemoved (steps r)" by blast
  with r show ?thesis by blast
qed

text \<open>
  Claim C10. \<open>preprocessImages\<close> never rejects: it always resolves with a bundle. When
  its try block throws, the bundle has \<open>success = False\<close> and as error the thrown
  message, or \<open>Preprocessing failed\<close> when there is none. Every bundle with
  \<open>success = False\<close> has a non-empty error message and carries the two input files
  themselves as \<open>processedPersonImage\<close> and \<open>processedGarmentImage\<close>.
\<close>

theorem preprocessImages_never_rejects:
  "\<exists>r. preprocessImages env p g options = Inr r
     \<and> (\<forall>e st. preprocessTry env p g
                 (orDefault True (removePersonBackground options))
                 (orDefault True (removeGarmentBackground options))
                 (orDefault True (segmentGarmentOption options))
                 (orDefault CompleteOutfit (garmentType options))
                 (orDefault False (useAdvancedSegmentation options))
                 (orDefault False (includeDebug options)) = (Inl e, st)
           \<longrightarrow> \<not> success r \<and> error r = Some (messageOr e ''Preprocessing failed''))
     \<and> (\<not> success r \<longrightarrow>
           processedPersonImage r = p \<and> processedGarmentImage r = g
           \<and> (\<exists>m. error r = Some m \<and> m \<noteq> []))"
proof -
  from preprocessImages_returns [OF refl refl refl refl refl refl, of env p g options]
  show ?thesis by (auto simp: messageOr_nonempty)
qed

theorem preprocessImages_never_rejects_witness:
  "\<exists>r. preprocessImages brokenBrowser personFile garmentFile noOptions = Inr r
     \<and> \<not> success r
     \<and> processedPersonImage r = personFile \<and> processedGarmentImage r = garmentFile
     \<and> error r = Some ''Person background removal failed. Cannot proceed with original image.''"
proof -
  from preprocessImages_never_rejects [of brokenBrowser personFile garmentFile noOptions]
  obtain r where r: "preprocessImages brokenBrowser personFile garmentFile noOptions = Inr r"
    and orig: "\<not> success r \<longrightarrow>
           processedPersonImage r = personFile \<and> processedGarmentImage r = garmentFile
           \<and> (\<exists>m. error r = Some m \<and> m \<noteq> [])"
    by blast
  from broken_run r have f: "\<not> success r"
    "error r = Some ''Person background removal failed. Cannot proceed with original image.''"
    by auto
  with orig r show ?thesis by blast
qed

section \<open>The background compositor\<close>

lemma hasTransparency_clear:
  assumes "0 < n"
  shows "hasTransparency (replicate (4 * n) 0)"
proof -
  obtain m where "n = Suc m" using assms by (cases n) auto
  then have "replicate (4 * n) (0::byte) = 0 # 0 # 0 # 0 # replicate (4 * m) 0"
    by (simp add: numeral_eq_Suc)
  then show ?thesis by simp
qed

lemma studio_foreground:
  "compositeForeground studioBrowser ''data:generated'' = Inr (solid 500 500 0)"
proof -
  have "hasTransparency (data (solid 500 500 0))"
    using hasTransparency_clear [of "500 * 500"] by (simp add: solid_def mult.assoc)
  then show ?thesis
    by (simp add: compositeForeground_def await_def loadImage_def studioBrowser_def)
qed

lemma studio_backdrop:
  "loadBackgroundImage studioBrowser Studio = Some (solid 1920 1080 255)"
  by (simp add: loadBackgroundImage_def loadImage_def studioBrowser_def backgroundName_def)

lemma solid_size: "width (solid w h v) = w" "height (solid w h v) = h"
  by (simp_all add: solid_def)

lemma canvasSize_none:
  "canvasSize fw fh None = (Fin (real fw), Fin (real fh))"
  by (simp add: canvasSize_def)

lemma composite_result:
  assumes "compositeForeground env url = Inr fg"
  shows "\<exists>r. compositeImageWithBackground env url bt = Inr r
           \<and> (BackgroundCompositingResult.success r \<longrightarrow>
                 compositedImageDataUrl r =
                   canvasToDataUrl env
                     (compositeCanvas fg bt (loadBackgroundImage env bt)) ''image/png'')"
  using assms
  by (auto simp: compositeImageWithBackground_def await_def Let_def split: sum.splits)

lemma composite_flat_fill:
  "compositeCanvas fg White None =
     \<lparr>canvasWidth = width fg, canvasHeight = height fg,
      drawn = [FillRect ''#FFFFFF'' (Fin 0) (Fin 0)
                 (Fin (real (width fg))) (Fin (real (height fg))),
               DrawImage fg (Fin 0) (Fin 0)
                 (Fin (real (width fg))) (Fin (real (height fg)))]\<rparr>"
  by (simp add: compositeCanvas_def canvasSize_none drawBackground_def canvasDimension_def
      toUnsignedLong_def jsDivide_def jsRound_def double_zero)

text \<open>
  The arithmetic of the studio scenario, a 500 by 500 foreground on the 1920 by 1080
  backdrop, operation by operation.
\<close>

lemma studio_bgAspect:
  "jsOver (Fin 1920) (Fin 1080) = Fin (2001599834386887 / 1125899906842624)"
  using double_eval [of 0 "1920 / 1080"]
  by (simp add: jsDivide_def jsRound_def tiesToEven_def Let_def power_int_minus)

lemma studio_fgAspect: "jsOver (Fin 500) (Fin 500) = Fin 1"
  by (simp add: jsDivide_def jsRound_def double_one)

lemma studio_canvasWidth:
  "jsTimes (Fin 500) (Fin (2001599834386887 / 1125899906842624))
     = Fin (7818749353073777 / 8796093022208)"
  using double_eval [of 9 "500 * (2001599834386887 / 1125899906842624)"]
  by (simp add: tiesToEven_def Let_def power_int_minus)

lemma studio_scale_width:
  "jsOver (Fin (7818749353073777 / 8796093022208)) (Fin 1920)
     = Fin (4169999654972681 / 9007199254740992)"
  using double_eval [of "- 2" "7818749353073777 / 8796093022208 / 1920"]
  by (simp add: jsDivide_def jsRound_def tiesToEven_def Let_def power_int_minus)

lemma studio_scale_height:
  "jsOver (Fin 500) (Fin 1080) = Fin (8339999309945363 / 18014398509481984)"
  using double_eval [of "- 2" "500 / 1080"]
  by (simp add: jsDivide_def jsRound_def tiesToEven_def Let_def power_int_minus)

lemma studio_scale:
  "jsMax (Fin (4169999654972681 / 9007199254740992))
         (Fin (8339999309945363 / 18014398509481984))
     = Fin (8339999309945363 / 18014398509481984)"
  by (simp add: jsMax_def)

lemma studio_scaledWidth:
  "jsTimes (Fin 1920) (Fin (8339999309945363 / 18014398509481984))
     = Fin (3909374676536889 / 4398046511104)"
  using double_eval [of 9 "1920 * (8339999309945363 / 18014398509481984)"]
  by (simp add: tiesToEven_def Let_def power_int_minus)

lemma studio_scaledHeight:
  "jsTimes (Fin 1080) (Fin (8339999309945363 / 18014398509481984)) = Fin 500"
  using double_eval [of 8 "1080 * (8339999309945363 / 18014398509481984)"]
  by (simp add: tiesToEven_def Let_def power_int_minus)

lemma studio_x_difference:
  "jsMinus (Fin (7818749353073777 / 8796093022208)) (Fin (3909374676536889 / 4398046511104))
     = Fin (- (1 / 8796093022208))"
  using double_eval [of "- 43" "- 1 / 8796093022208"]
  by (simp add: tiesToEven_def Let_def power_int_minus)

lemma studio_x:
  "jsOver (Fin (- (1 / 8796093022208))) (Fin 2) = Fin (- (1 / 17592186044416))"
  using double_eval [of "- 44" "- 1 / 17592186044416"]
  by (simp add: jsDivide_def jsRound_def tiesToEven_def Let_def power_int_minus)

lemma studio_y:
  "jsMinus (Fin 500) (Fin 500) = Fin 0" "jsOver (Fin 0) (Fin 2) = Fin 0"
  by (simp_all add: jsDivide_def jsRound_def double_zero)

lemma studio_foreground_difference:
  "jsMinus (Fin (7818749353073777 / 8796093022208)) (Fin 500)
     = Fin (3420702841969777 / 8796093022208)"
  using double_eval [of 8 "3420702841969777 / 8796093022208"]
  by (simp add: tiesToEven_def Let_def power_int_minus)

lemma studio_foregroundX:
  "jsOver (Fin (3420702841969777 / 8796093022208)) (Fin 2)
     = Fin (3420702841969777 / 17592186044416)"
  using double_eval [of 7 "3420702841969777 / 17592186044416"]
  by (simp add: jsDivide_def jsRound_def tiesToEven_def Let_def power_int_minus)

lemma studio_canvasSize:
  "canvasSize 500 500 (Some (solid 1920 1080 255))
     = (Fin (7818749353073777 / 8796093022208), Fin 500)"
  by (simp add: canvasSize_def solid_size Let_def studio_bgAspect studio_fgAspect
      studio_canvasWidth del: jsOver.simps jsTimes.simps)

lemma studio_drawBackground:
  "drawBackground Studio (Some (solid 1920 1080 255))
     (Fin (7818749353073777 / 8796093022208)) (Fin 500)
   = DrawImage (solid 1920 1080 255) (Fin (- 1 / 17592186044416)) (Fin 0)
       (Fin (3909374676536889 / 4398046511104)) (Fin 500)"
  by (simp add: drawBackground_def solid_size Let_def studio_scale_width studio_scale_height
      studio_scale studio_scaledWidth studio_scaledHeight studio_x_difference studio_x studio_y
      del: jsOver.simps jsTimes.simps jsMinus.simps)

lemma studio_canvas:
  "compositeCanvas (solid 500 500 0) Studio (Some (solid 1920 1080 255)) =
     \<lparr>canvasWidth = 888, canvasHeight = 500,
      drawn = [DrawImage (solid 1920 1080 255) (Fin (- 1 / 17592186044416)) (Fin 0)
                 (Fin (3909374676536889 / 4398046511104)) (Fin 500),
               DrawImage (solid 500 500 0) (Fin (3420702841969777 / 17592186044416)) (Fin 0)
                 (Fin 500) (Fin 500)]\<rparr>"
  by (simp add: compositeCanvas_def solid_size studio_canvasSize studio_drawBackground
      studio_foreground_difference studio_foregroundX studio_y canvasDimension_def
      toUnsignedLong_def
      del: jsOver.simps jsTimes.simps jsMinus.simps)

lemma studio_run:
  "\<exists>r. compositeImageWithBackground studioBrowser ''data:generated'' Studio = Inr r
     \<and> BackgroundCompositingResult.success r
     \<and> compositedImageDataUrl r = ''data:image/png,888x500''"
proof -
  have ctx: "hasContext2d studioBrowser w h" for w h
    by (simp add: studioBrowser_def offlineBrowser_def scenarioBrowser_def)
  have blob: "toBlob studioBrowser c m = Some pngBlob" for c m
    by (simp add: studioBrowser_def offlineBrowser_def scenarioBrowser_def)
  have url: "toDataURL studioBrowser c ''image/png'' =
      ''data:image/png,'' @ decimal (canvasWidth c) @ ''x'' @ decimal (canvasHeight c)" for c
    by (simp add: studioBrowser_def)
  have d: "decimal 888 = ''888''" "decimal 500 = ''500''" by simp_all
  show ?thesis
    by (simp add: compositeImageWithBackground_def await_def studio_foreground studio_backdrop
        Let_def ctx canvasToFile_def canvasToBlob_def blob canvasToDataUrl_def url
        studio_canvas d del: decimal.simps)
qed

text \<open>
  Two foregrounds on a backdrop of their own aspect ratio: 35 by 15 on 7 by 3, and
  1152 by 896 on 1800 by 1400. The quotient of the width by the rounded aspect ratio
  falls just below the foreground's height.
\<close>

lemma equal_aspect_35x15:
  "canvasSize 35 15 (Some (solid 7 3 255))
     = (Fin 35, Fin (8444249301319679 / 562949953421312))"
proof -
  have a: "jsOver (Fin 7) (Fin 3) = Fin (5254199565265579 / 2251799813685248)"
    using double_eval [of 1 "7 / 3"]
    by (simp add: jsDivide_def jsRound_def tiesToEven_def Let_def power_int_minus)
  have b: "jsOver (Fin 35) (Fin 15) = Fin (5254199565265579 / 2251799813685248)"
    using double_eval [of 1 "35 / 15"]
    by (simp add: jsDivide_def jsRound_def tiesToEven_def Let_def power_int_minus)
  have c: "jsOver (Fin 35) (Fin (5254199565265579 / 2251799813685248))
             = Fin (8444249301319679 / 562949953421312)"
    using double_eval [of 3 "35 / (5254199565265579 / 2251799813685248)"]
    by (simp add: jsDivide_def jsRound_def tiesToEven_def Let_def power_int_minus)
  show ?thesis
    by (simp add: canvasSize_def solid_size Let_def a b c del: jsOver.simps jsTimes.simps)
qed

lemma equal_aspect_1152x896:
  "canvasSize 1152 896 (Some (solid 1800 1400 255))
     = (Fin 1152, Fin (7881299347898367 / 8796093022208))"
proof -
  have a: "jsOver (Fin 1800) (Fin 1400) = Fin (5790342378047781 / 4503599627370496)"
    using double_eval [of 0 "1800 / 1400"]
    by (simp add: jsDivide_def jsRound_def tiesToEven_def Let_def power_int_minus)
  have b: "jsOver (Fin 1152) (Fin 896) = Fin (5790342378047781 / 4503599627370496)"
    using double_eval [of 0 "1152 / 896"]
    by (simp add: jsDivide_def jsRound_def tiesToEven_def Let_def power_int_minus)
  have c: "jsOver (Fin 1152) (Fin (5790342378047781 / 4503599627370496))
             = Fin (7881299347898367 / 8796093022208)"
    using double_eval [of 9 "1152 / (5790342378047781 / 4503599627370496)"]
    by (simp add: jsDivide_def jsRound_def tiesToEven_def Let_def power_int_minus)
  show ?thesis
    by (simp add: canvasSize_def solid_size Let_def a b c del: jsOver.simps jsTimes.simps)
qed

text \<open>
  Claim C9. The flat-fill half holds: the canvas has exactly the foreground's dimensions,
  a white fill of that size with the foreground drawn on it at the origin. The half on
  named backdrops fails, against the source's own comments (``scale background to match
  foreground aspect ratio while covering'', ``centered and scaled to cover''): the canvas
  takes the backdrop's aspect ratio instead of the foreground's dimensions. A 500 by 500
  foreground with transparent pixels, composited on the 1920 by 1080 studio backdrop,
  gives a canvas of 888 by 500; the backdrop is drawn 888.8888888888889 by 500 at
  \<open>x = -5.7e-14\<close>, so nothing of it is cropped, and the foreground is drawn at
  \<open>x = 194.4444444444444\<close>. When backdrop and foreground have the same aspect ratio the
  canvas can be one row shorter than the foreground: 35 by 15 on 7 by 3 gives 35 by 14,
  and 1152 by 896 on 1800 by 1400 gives 1152 by 895.
\<close>

theorem composite_canvas_size_divergence:
  "compositeCanvas fg White None =
     \<lparr>canvasWidth = width fg, canvasHeight = height fg,
      drawn = [FillRect ''#FFFFFF'' (Fin 0) (Fin 0)
                 (Fin (real (width fg))) (Fin (real (height fg))),
               DrawImage fg (Fin 0) (Fin 0)
                 (Fin (real (width fg))) (Fin (real (height fg)))]\<rparr>
   \<and> loadBackgroundImage env White = None
   \<and> compositeForeground studioBrowser ''data:generated'' = Inr (solid 500 500 0)
   \<and> width (solid 500 500 0) = 500 \<and> height (solid 500 500 0) = 500
   \<and> loadBackgroundImage studioBrowser Studio = Some (solid 1920 1080 255)
   \<and> (\<exists>r. compositeImageWithBackground studioBrowser ''data:generated'' Studio = Inr r
         \<and> BackgroundCompositingResult.success r
         \<and> compositedImageDataUrl r = ''data:image/png,888x500'')
   \<and> compositeCanvas (solid 500 500 0) Studio (Some (solid 1920 1080 255)) =
       \<lparr>canvasWidth = 888, canvasHeight = 500,
        drawn = [DrawImage (solid 1920 1080 255) (Fin (- 1 / 17592186044416)) (Fin 0)
                   (Fin (3909374676536889 / 4398046511104)) (Fin 500),
                 DrawImage (solid 500 500 0) (Fin (3420702841969777 / 17592186044416)) (Fin 0)
                   (Fin 500) (Fin 500)]\<rparr>
   \<and> canvasWidth (compositeCanvas (solid 35 15 0) Studio (Some (solid 7 3 255))) = 35
   \<and> canvasHeight (compositeCanvas (solid 35 15 0) Studio (Some (solid 7 3 255))) = 14
   \<and> canvasWidth (compositeCanvas (solid 1152 896 0) FittingRoom (Some (solid 1800 1400 255)))
       = 1152
   \<and> canvasHeight (compositeCanvas (solid 1152 896 0) FittingRoom (Some (solid 1800 1400 255)))
       = 895"
proof -
  have white: "loadBackgroundImage env White = None"
    by (simp add: loadBackgroundImage_def)
  have small: "canvasWidth (compositeCanvas (solid 35 15 0) Studio (Some (solid 7 3 255))) = 35"
    "canvasHeight (compositeCanvas (solid 35 15 0) Studio (Some (solid 7 3 255))) = 14"
    by (simp_all add: compositeCanvas_def solid_size equal_aspect_35x15 canvasDimension_def
        toUnsignedLong_def)
  have large:
    "canvasWidth (compositeCanvas (solid 1152 896 0) FittingRoom (Some (solid 1800 1400 255)))
       = 1152"
    "canvasHeight (compositeCanvas (solid 1152 896 0) FittingRoom (Some (solid 1800 1400 255)))
       = 895"
    by (simp_all add: compositeCanvas_def solid_size equal_aspect_1152x896 canvasDimension_def
        toUnsignedLong_def)
  show ?thesis
    using composite_flat_fill [of fg] white studio_foreground studio_backdrop studio_run
      studio_canvas small large
    by (simp add: solid_size)
qed

end
